theory Spec2Isabelle
  imports Complex_Main "HOL-Library.Sublist" "HOL-Library.Multiset"
begin

section \<open>Python values shared by the three modules\<close>

text \<open>
  The exceptions that the modelled code can raise.  A function that can raise returns
  \<open>exn + 'a\<close>, with \<open>Inl\<close> for the exception.  \<open>RecursionError\<close> is what CPython raises
  when the nesting of calls exceeds the interpreter's recursion limit; the recursive
  functions of the source take the number of frames still available as a parameter.
  \<open>LayoutError\<close> stands for any \<open>Exception\<close> raised inside \<open>nx.spring_layout\<close>.
\<close>

datatype exn =
    KeyError string
  | NameError string
  | ZeroDivisionError
  | ValueError
  | RecursionError
  | LayoutError

text \<open>
  A \<open>dict\<close> is an association list with distinct keys in insertion order: storing under an
  existing key replaces the value in place, storing under a new key appends.
\<close>

definition dict_set :: "('k \<times> 'v) list \<Rightarrow> 'k \<Rightarrow> 'v \<Rightarrow> ('k \<times> 'v) list" where
  "dict_set d k v =
     (if k \<in> fst ` set d then map (\<lambda>(k', v'). if k' = k then (k', v) else (k', v')) d
      else d @ [(k, v)])"

definition dict_get :: "('k \<times> 'v) list \<Rightarrow> 'k \<Rightarrow> 'v \<Rightarrow> 'v" where
  "dict_get d k dflt = (case map_of d k of None \<Rightarrow> dflt | Some v \<Rightarrow> v)"

text \<open>\<open>xs.sort(key=..., reverse=True)\<close>: a stable sort, larger keys first.\<close>

definition sort_desc :: "('a \<Rightarrow> 'k::{linorder, uminus}) \<Rightarrow> 'a list \<Rightarrow> 'a list" where
  "sort_desc key xs = sort_key (\<lambda>x. - key x) xs"

text \<open>\<open>max(xs, key=...)\<close> on a non-empty list \<open>x # xs\<close>: the first maximal element.\<close>

definition py_max_by :: "('a \<Rightarrow> 'k::linorder) \<Rightarrow> 'a \<Rightarrow> 'a list \<Rightarrow> 'a" where
  "py_max_by key x xs = foldl (\<lambda>best c. if key best < key c then c else best) x xs"

text \<open>
  The module \<open>random\<close> is an explicit source of draws, threaded through the code: a list
  of natural numbers, read from the front (an exhausted source yields 0).
  \<open>random.choice\<close> takes the element at the drawn index; \<open>random.sample\<close> draws
  \<open>k\<close> times without replacement.  Every result that the library can return is the
  result for some source.
\<close>

type_synonym rng = "nat list"

fun next_random :: "rng \<Rightarrow> nat \<times> rng" where
  "next_random [] = (0, [])"
| "next_random (r # rs) = (r, rs)"

definition random_choice :: "rng \<Rightarrow> 'a list \<Rightarrow> 'a \<times> rng" where
  "random_choice g xs = (case next_random g of (r, g') \<Rightarrow> (xs ! (r mod length xs), g'))"

fun random_sample :: "rng \<Rightarrow> 'a list \<Rightarrow> nat \<Rightarrow> 'a list \<times> rng" where
  "random_sample g pop 0 = ([], g)"
| "random_sample g pop (Suc k) =
     (if pop = [] then ([], g)
      else case next_random g of (r, g') \<Rightarrow>
        (let i = r mod length pop in
         case random_sample g' (take i pop @ drop (Suc i) pop) k of
           (rest, g'') \<Rightarrow> (pop ! i # rest, g'')))"

section \<open>The knowledge map (the record written by \<open>mapper.py\<close>, read by \<open>journey.py\<close>)\<close>

record node =
  n_id :: string
  n_label :: string
  n_type :: string
  n_importance :: real
  n_frequency :: int
  n_x :: real
  n_y :: real
  n_size :: real

record link =
  l_source :: string
  l_target :: string
  l_weight :: int
  l_type :: string
  l_subtypes :: "string list"

record cluster =
  c_id :: int
  c_name :: string
  c_concepts :: "string list"
  c_center :: "real \<times> real"
  c_size :: int

datatype subtree = Subtree (st_concept: string) (st_children: "subtree list")

text \<open>
  The \<open>hierarchy\<close> value is either the empty dict \<open>{}\<close> or a dict with the two keys
  \<open>roots\<close> and \<open>tree\<close>.
\<close>

datatype hierarchy =
    EmptyHierarchy
  | Hierarchy (h_roots: "string list") (h_tree: "(string \<times> subtree list) list")

record map_metadata =
  total_nodes :: nat
  total_links :: nat
  total_clusters :: nat

record knowledge_map =
  km_nodes :: "node list"
  km_links :: "link list"
  km_clusters :: "cluster list"
  km_hierarchy :: hierarchy
  km_metadata :: map_metadata

section \<open>Strings\<close>

text \<open>
  Python strings are lists of characters with codes below 256.  \<open>str.lower\<close> is modelled
  on the ASCII letters; \<open>is_space\<close> is \<open>str.isspace\<close> (which \<open>\s\<close> and \<open>str.split\<close>
  follow) on that range.  The operator \<open>in\<close> between strings is \<^const>\<open>sublist\<close>:
  the left string occurs as a contiguous part of the right one.
\<close>

definition lower_char :: "char \<Rightarrow> char" where
  "lower_char c =
     (let n = (of_char c :: nat) in if 65 \<le> n \<and> n \<le> 90 then char_of (n + 32) else c)"

definition lower :: "string \<Rightarrow> string" where
  "lower s = map lower_char s"

definition is_space :: "char \<Rightarrow> bool" where
  "is_space c = ((of_char c :: nat) \<in> set [9, 10, 11, 12, 13, 28, 29, 30, 31, 32, 133, 160])"

definition strip :: "string \<Rightarrow> string" where
  "strip s = rev (dropWhile is_space (rev (dropWhile is_space s)))"

text \<open>\<open>re.sub(r'\s+', ' ', s)\<close>\<close>

function collapse_ws :: "string \<Rightarrow> string" where
  "collapse_ws [] = []"
| "collapse_ws (c # cs) =
     (if is_space c then CHR '' '' # collapse_ws (dropWhile is_space cs)
      else c # collapse_ws cs)"
  by pat_completeness auto
termination
  by (relation "measure length") (auto simp: length_dropWhile_le less_Suc_eq_le)

text \<open>\<open>s.split()\<close>: the maximal runs of characters that are not white space.\<close>

function split_ws :: "string \<Rightarrow> string list" where
  "split_ws s =
     (case dropWhile is_space s of
        [] \<Rightarrow> []
      | c # cs \<Rightarrow> (c # takeWhile (\<lambda>x. \<not> is_space x) cs)
                   # split_ws (dropWhile (\<lambda>x. \<not> is_space x) cs))"
  by pat_completeness auto
termination
proof (relation "measure length", simp, goal_cases)
  case (1 s c cs)
  have "length (dropWhile (\<lambda>x. \<not> is_space x) cs) \<le> length cs"
    by (rule length_dropWhile_le)
  moreover have "length (c # cs) \<le> length s"
    using length_dropWhile_le [of is_space s] 1 by simp
  ultimately show ?case by simp
qed

declare split_ws.simps [simp del]

text \<open>\<open>str(i)\<close> for an integer.\<close>

fun nat_to_string :: "nat \<Rightarrow> string" where
  "nat_to_string n =
     (if n < 10 then [char_of (48 + n)] else nat_to_string (n div 10) @ [char_of (48 + n mod 10)])"

declare nat_to_string.simps [simp del]

definition int_to_string :: "int \<Rightarrow> string" where
  "int_to_string i = (if i < 0 then CHR ''-'' # nat_to_string (nat (- i)) else nat_to_string (nat i))"

section \<open>The annotation supplied by spaCy\<close>

text \<open>
  What the code reads from the \<open>Doc\<close> that \<open>self.nlp(text)\<close> returns: the sentences with
  their tokens (\<open>len(doc)\<close> and \<open>for token in doc\<close> run over the tokens of all sentences),
  the noun chunks and the named entities.
\<close>

record token =
  t_text :: string
  t_pos :: string
  t_is_stop :: bool
  t_dep :: string
  t_head_text :: string

record sentence =
  s_text :: string
  s_tokens :: "token list"

record entity =
  e_text :: string
  e_label :: string

record doc =
  d_sents :: "sentence list"
  d_noun_chunks :: "string list"
  d_ents :: "entity list"

definition doc_tokens :: "doc \<Rightarrow> token list" where
  "doc_tokens d = concat (map s_tokens (d_sents d))"

section \<open>\<open>extractor.py\<close>: \<open>KnowledgeExtractor\<close>\<close>

record concept =
  cp_text :: string
  cp_type :: string
  cp_frequency :: int
  cp_importance :: real

text \<open>A string is truthy when it is not empty; \<open>None\<close> is falsy.\<close>

definition truthy :: "string option \<Rightarrow> bool" where
  "truthy s = (case s of None \<Rightarrow> False | Some t \<Rightarrow> t \<noteq> [])"

text \<open>A loop whose body can raise: the first exception ends it.\<close>

fun fold_exn :: "('s \<Rightarrow> 'a \<Rightarrow> exn + 's) \<Rightarrow> 's \<Rightarrow> 'a list \<Rightarrow> exn + 's" where
  "fold_exn f s [] = Inr s"
| "fold_exn f s (x # xs) = (case f s x of Inl e \<Rightarrow> Inl e | Inr s' \<Rightarrow> fold_exn f s' xs)"

text \<open>\<open>collections.Counter\<close> and \<open>most_common(n)\<close>\<close>

definition counter :: "'a list \<Rightarrow> ('a \<times> int) list" where
  "counter xs = foldl (\<lambda>c k. dict_set c k (dict_get c k 0 + 1)) [] xs"

definition most_common :: "nat \<Rightarrow> ('a \<times> int) list \<Rightarrow> ('a \<times> int) list" where
  "most_common n c = take n (sort_desc snd c)"

text \<open>\<open>count / len(doc)\<close>\<close>

definition py_div :: "int \<Rightarrow> nat \<Rightarrow> exn + real" where
  "py_div a b = (if b = 0 then Inl ZeroDivisionError else Inr (real_of_int a / real b))"

definition entity_labels :: "string list" where
  "entity_labels =
     [''ORG'', ''PERSON'', ''GPE'', ''LOC'', ''PRODUCT'', ''EVENT'', ''WORK_OF_ART'', ''LAW'']"

definition add_phrase :: "nat \<Rightarrow> concept list \<Rightarrow> string \<times> int \<Rightarrow> exn + concept list" where
  "add_phrase n concepts pc =
     (case pc of (phrase, cnt) \<Rightarrow>
        if 2 \<le> cnt then
          (case py_div cnt n of
             Inl e \<Rightarrow> Inl e
           | Inr imp \<Rightarrow> Inr (concepts @ [\<lparr>cp_text = phrase, cp_type = ''noun_phrase'',
                                          cp_frequency = cnt, cp_importance = imp\<rparr>]))
        else Inr concepts)"

definition add_entity :: "concept list \<Rightarrow> string \<times> string \<Rightarrow> concept list" where
  "add_entity concepts ent =
     (case ent of (text, label) \<Rightarrow>
        if \<not> (\<exists>c \<in> set concepts. lower (cp_text c) = lower text)
        then concepts @ [\<lparr>cp_text = text, cp_type = label, cp_frequency = 1,
                           cp_importance = 8 / 10\<rparr>]
        else concepts)"

definition add_term :: "nat \<Rightarrow> concept list \<Rightarrow> string \<times> int \<Rightarrow> exn + concept list" where
  "add_term n concepts tc =
     (case tc of (term, cnt) \<Rightarrow>
        if 3 \<le> cnt \<and> \<not> (\<exists>c \<in> set concepts. term \<in> set (split_ws (lower (cp_text c)))) then
          (case py_div cnt n of
             Inl e \<Rightarrow> Inl e
           | Inr imp \<Rightarrow> Inr (concepts @ [\<lparr>cp_text = term, cp_type = ''key_term'',
                                          cp_frequency = cnt, cp_importance = imp\<rparr>]))
        else Inr concepts)"

text \<open>\<open>_extract_concepts\<close>, on the annotation of the text.\<close>

definition extract_concepts :: "doc \<Rightarrow> exn + concept list" where
  "extract_concepts d =
     (let n = length (doc_tokens d);
          noun_phrases =
            filter (\<lambda>clean_phrase. clean_phrase \<noteq> [] \<and> length (split_ws clean_phrase) \<le> 5)
              (map (\<lambda>chunk. collapse_ws (lower (strip chunk))) (d_noun_chunks d));
          phrase_counter = counter noun_phrases;
          entities =
            map (\<lambda>ent. (collapse_ws (strip (e_text ent)), e_label ent))
              (filter (\<lambda>ent. e_label ent \<in> set entity_labels) (d_ents d));
          key_terms =
            map (\<lambda>t. lower (t_text t))
              (filter (\<lambda>t. t_pos t \<in> set [''NOUN'', ''PROPN''] \<and> \<not> t_is_stop t
                            \<and> 2 < length (t_text t)) (doc_tokens d));
          term_counter = counter key_terms
      in case fold_exn (add_phrase n) [] (most_common 50 phrase_counter) of
           Inl e \<Rightarrow> Inl e
         | Inr concepts1 \<Rightarrow>
            (case fold_exn (add_term n) (foldl add_entity concepts1 entities)
                    (most_common 30 term_counter) of
               Inl e \<Rightarrow> Inl e
             | Inr concepts3 \<Rightarrow> Inr (take 100 (sort_desc cp_importance concepts3))))"

text \<open>
  The undirected \<open>nx.Graph\<close> of \<open>_extract_relationships\<close>: the nodes in insertion order and
  the edges in insertion order, each with its attribute dict (\<open>weight\<close>, \<open>type\<close>, and
  \<open>types\<close> when that key was given).
\<close>

record edge_data =
  ed_weight :: int
  ed_type :: string
  ed_types :: "string list option"

record rel_graph =
  g_nodes :: "string list"
  g_edges :: "((string \<times> string) \<times> edge_data) list"

definition same_edge :: "string \<Rightarrow> string \<Rightarrow> string \<times> string \<Rightarrow> bool" where
  "same_edge u v e = (e = (u, v) \<or> e = (v, u))"

definition add_node :: "rel_graph \<Rightarrow> string \<Rightarrow> rel_graph" where
  "add_node G n = (if n \<in> set (g_nodes G) then G else G\<lparr>g_nodes := g_nodes G @ [n]\<rparr>)"

definition has_edge :: "rel_graph \<Rightarrow> string \<Rightarrow> string \<Rightarrow> bool" where
  "has_edge G u v = (\<exists>(e, d) \<in> set (g_edges G). same_edge u v e)"

definition get_edge :: "rel_graph \<Rightarrow> string \<Rightarrow> string \<Rightarrow> edge_data option" where
  "get_edge G u v = map_option snd (find (\<lambda>(e, d). same_edge u v e) (g_edges G))"

definition update_edge :: "rel_graph \<Rightarrow> string \<Rightarrow> string \<Rightarrow> (edge_data \<Rightarrow> edge_data) \<Rightarrow> rel_graph" where
  "update_edge G u v f =
     G\<lparr>g_edges := map (\<lambda>(e, d). if same_edge u v e then (e, f d) else (e, d)) (g_edges G)\<rparr>"

text \<open>\<open>G.add_edge(u, v, **attr)\<close> for an edge that is not in the graph yet.\<close>

definition add_edge :: "rel_graph \<Rightarrow> string \<Rightarrow> string \<Rightarrow> edge_data \<Rightarrow> rel_graph" where
  "add_edge G u v d =
     (let G' = add_node (add_node G u) v in G'\<lparr>g_edges := g_edges G' @ [((u, v), d)]\<rparr>)"

text \<open>
  \<open>G.edges(data=True)\<close>: the nodes in their order, for each node its neighbours in the
  order in which they became neighbours, leaving out the neighbours already reported.
\<close>

definition neighbours :: "((string \<times> string) \<times> 'd) list \<Rightarrow> string \<Rightarrow> (string \<times> 'd) list" where
  "neighbours es n =
     List.map_filter (\<lambda>((u, v), d). if u = n then Some (v, d) else if v = n then Some (u, d) else None) es"

fun edges_from ::
  "((string \<times> string) \<times> 'd) list \<Rightarrow> string list \<Rightarrow> string list \<Rightarrow> (string \<times> string \<times> 'd) list" where
  "edges_from es seen [] = []"
| "edges_from es seen (n # ns) =
     map (\<lambda>(nbr, d). (n, nbr, d)) (filter (\<lambda>(nbr, d). nbr \<notin> set seen) (neighbours es n))
     @ edges_from es (seen @ [n]) ns"

definition edges_view :: "rel_graph \<Rightarrow> (string \<times> string \<times> edge_data) list" where
  "edges_view G = edges_from (g_edges G) [] (g_nodes G)"

text \<open>The pairs \<open>(xs[i], xs[j])\<close> with \<open>i < j\<close>, in the order of the two nested loops.\<close>

fun pairs :: "'a list \<Rightarrow> ('a \<times> 'a) list" where
  "pairs [] = []"
| "pairs (x # xs) = map (Pair x) xs @ pairs xs"

definition cooccur_pair :: "rel_graph \<Rightarrow> string \<times> string \<Rightarrow> rel_graph" where
  "cooccur_pair G p =
     (case p of (concept1, concept2) \<Rightarrow>
        if has_edge G concept1 concept2
        then update_edge G concept1 concept2 (\<lambda>d. d\<lparr>ed_weight := ed_weight d + 1\<rparr>)
        else add_edge G concept1 concept2
               \<lparr>ed_weight = 1, ed_type = ''co-occurrence'', ed_types = None\<rparr>)"

definition cooccur_sentence :: "(string \<times> string) list \<Rightarrow> rel_graph \<Rightarrow> sentence \<Rightarrow> rel_graph" where
  "cooccur_sentence concept_map G sent =
     (let sent_text = lower (s_text sent);
          sentence_concepts =
            map snd (filter (\<lambda>(concept_lower, concept_original). sublist concept_lower sent_text)
                       concept_map)
      in foldl cooccur_pair G (pairs sentence_concepts))"

text \<open>
  The last concept whose text contains, or is contained in, the given lower-cased text;
  \<open>None\<close> when no concept matches.
\<close>

definition match_concept :: "concept list \<Rightarrow> string \<Rightarrow> string option" where
  "match_concept concepts text =
     foldl (\<lambda>found c. if sublist text (lower (cp_text c)) \<or> sublist (lower (cp_text c)) text
                       then Some (cp_text c) else found) None concepts"

definition syntactic_token :: "concept list \<Rightarrow> rel_graph \<Rightarrow> token \<Rightarrow> exn + rel_graph" where
  "syntactic_token concepts G tok =
     (if t_dep tok \<in> set [''nsubj'', ''dobj'', ''pobj''] then
        (let token_concept = match_concept concepts (lower (t_text tok));
             head_concept = match_concept concepts (lower (t_head_text tok))
         in if truthy token_concept \<and> truthy head_concept \<and> token_concept \<noteq> head_concept then
              (let tc = the token_concept; hc = the head_concept;
                   rel_type = (if t_dep tok = ''nsubj'' then ''subject_of'' else ''object_of'')
               in if has_edge G tc hc then
                    (case get_edge G tc hc of
                       None \<Rightarrow> Inr G
                     | Some d \<Rightarrow>
                        (case ed_types d of
                           None \<Rightarrow> Inl (KeyError ''types'')
                         | Some ts \<Rightarrow>
                             Inr (update_edge G tc hc
                                    (\<lambda>d. d\<lparr>ed_weight := ed_weight d + 1,
                                           ed_types := Some (if rel_type \<in> set ts then ts
                                                             else ts @ [rel_type])\<rparr>))))
                  else Inr (add_edge G tc hc
                              \<lparr>ed_weight = 1, ed_type = ''syntactic'', ed_types = Some [rel_type]\<rparr>))
            else Inr G)
      else Inr G)"

text \<open>\<open>_extract_relationships\<close>, on the annotation of the text.\<close>

definition extract_relationships :: "doc \<Rightarrow> concept list \<Rightarrow> exn + link list" where
  "extract_relationships d concepts =
     (let G0 = foldl add_node \<lparr>g_nodes = [], g_edges = []\<rparr> (map cp_text concepts);
          concept_map = foldl (\<lambda>m c. dict_set m (lower (cp_text c)) (cp_text c)) [] concepts;
          G1 = foldl (cooccur_sentence concept_map) G0 (d_sents d)
      in case fold_exn (syntactic_token concepts) G1 (doc_tokens d) of
           Inl e \<Rightarrow> Inl e
         | Inr G2 \<Rightarrow>
             Inr (sort_desc l_weight
                    (map (\<lambda>(u, v, data).
                            \<lparr>l_source = u, l_target = v, l_weight = ed_weight data,
                             l_type = ed_type data,
                             l_subtypes = (case ed_types data of None \<Rightarrow> [] | Some ts \<Rightarrow> ts)\<rparr>)
                         (edges_view G2))))"

text \<open>
  The \<open>nx.DiGraph\<close> of \<open>_generate_hierarchy\<close>: the nodes with their \<open>importance\<close>, in
  insertion order, and the directed edges in insertion order.  Both ends of every edge
  are concept texts, which are nodes already.
\<close>

record di_graph =
  dg_nodes :: "(string \<times> real) list"
  dg_edges :: "(string \<times> string) list"

definition di_add_edge :: "di_graph \<Rightarrow> string \<Rightarrow> string \<Rightarrow> di_graph" where
  "di_add_edge G u v = (if (u, v) \<in> set (dg_edges G) then G else G\<lparr>dg_edges := dg_edges G @ [(u, v)]\<rparr>)"

definition successors :: "di_graph \<Rightarrow> string \<Rightarrow> string list" where
  "successors G n = map snd (filter (\<lambda>(u, v). u = n) (dg_edges G))"

definition in_degree :: "di_graph \<Rightarrow> string \<Rightarrow> nat" where
  "in_degree G n = length (filter (\<lambda>(u, v). v = n) (dg_edges G))"

definition containment_step :: "di_graph \<Rightarrow> concept \<times> concept \<Rightarrow> di_graph" where
  "containment_step G p =
     (case p of (concept1, concept2) \<Rightarrow>
        if cp_text concept1 \<noteq> cp_text concept2 then
          (if sublist (lower (cp_text concept1)) (lower (cp_text concept2))
             then di_add_edge G (cp_text concept1) (cp_text concept2)
           else if sublist (lower (cp_text concept2)) (lower (cp_text concept1))
             then di_add_edge G (cp_text concept2) (cp_text concept1)
           else G)
        else G)"

definition containment_graph :: "concept list \<Rightarrow> di_graph" where
  "containment_graph concepts =
     foldl containment_step
       \<lparr>dg_nodes = foldl (\<lambda>d c. dict_set d (cp_text c) (cp_importance c)) [] concepts,
        dg_edges = []\<rparr>
       (List.product concepts concepts)"

text \<open>
  \<open>_build_subtree\<close>: one nested call per level of the tree; \<open>limit\<close> is the number of
  nested calls the interpreter still allows.
\<close>

fun map_exn :: "('a \<Rightarrow> exn + 'b) \<Rightarrow> 'a list \<Rightarrow> exn + 'b list" where
  "map_exn f [] = Inr []"
| "map_exn f (x # xs) =
     (case f x of
        Inl e \<Rightarrow> Inl e
      | Inr y \<Rightarrow> (case map_exn f xs of Inl e \<Rightarrow> Inl e | Inr ys \<Rightarrow> Inr (y # ys)))"

fun build_subtree :: "nat \<Rightarrow> di_graph \<Rightarrow> string \<Rightarrow> exn + subtree list" where
  "build_subtree 0 G n = Inl RecursionError"
| "build_subtree (Suc limit) G n =
     map_exn (\<lambda>child. case build_subtree limit G child of
                        Inl e \<Rightarrow> Inl e
                      | Inr children \<Rightarrow> Inr (Subtree child children))
       (successors G n)"

text \<open>\<open>_generate_hierarchy\<close>\<close>

definition generate_hierarchy :: "nat \<Rightarrow> concept list \<Rightarrow> exn + hierarchy" where
  "generate_hierarchy limit concepts =
     (let G = containment_graph concepts;
          root_candidates = filter (\<lambda>n. in_degree G n = 0) (map fst (dg_nodes G));
          root_candidates' = (if root_candidates = []
                              then take 5 (map fst (sort_desc snd (dg_nodes G)))
                              else root_candidates);
          roots = take 5 root_candidates'
      in case fold_exn (\<lambda>tree r. case build_subtree limit G r of
                                    Inl e \<Rightarrow> Inl e
                                  | Inr sub \<Rightarrow> Inr (dict_set tree r sub)) [] roots of
           Inl e \<Rightarrow> Inl e
         | Inr tree \<Rightarrow> Inr (Hierarchy roots tree))"

text \<open>
  \<open>_generate_clusters\<close>.  The partition itself comes from a library (Louvain communities,
  or connected components when that module is missing) and is a parameter: the list of
  \<open>(id, members)\<close> before it is sorted by size and named.
\<close>

record extracted_cluster =
  xc_id :: int
  xc_concepts :: "string list"
  xc_name :: string

definition generate_clusters ::
  "(concept list \<Rightarrow> link list \<Rightarrow> (int \<times> string list) list) \<Rightarrow> concept list \<Rightarrow> link list
     \<Rightarrow> extracted_cluster list" where
  "generate_clusters detect concepts relationships =
     map (\<lambda>(i, members).
            \<lparr>xc_id = i, xc_concepts = members,
             xc_name = (case filter (\<lambda>c. cp_text c \<in> set members) concepts of
                          [] \<Rightarrow> ''Cluster '' @ int_to_string i
                        | c # cs \<Rightarrow> cp_text (py_max_by cp_importance c cs))\<rparr>)
         (sort_desc (\<lambda>(i, members). int (length members)) (detect concepts relationships))"

text \<open>\<open>extract_knowledge\<close>\<close>

record processed_content =
  pc_content :: "string option"

record extracted_knowledge =
  ek_concepts :: "concept list"
  ek_relationships :: "link list"
  ek_hierarchy :: hierarchy
  ek_clusters :: "extracted_cluster list"

definition extract_knowledge ::
  "(string \<Rightarrow> doc) \<Rightarrow> (concept list \<Rightarrow> link list \<Rightarrow> (int \<times> string list) list) \<Rightarrow> nat
     \<Rightarrow> processed_content \<Rightarrow> exn + extracted_knowledge" where
  "extract_knowledge nlp detect limit processed =
     (let text = (case pc_content processed of None \<Rightarrow> [] | Some t \<Rightarrow> t) in
      if text = [] then
        Inr \<lparr>ek_concepts = [], ek_relationships = [], ek_hierarchy = EmptyHierarchy,
             ek_clusters = []\<rparr>
      else
        (case extract_concepts (nlp text) of
           Inl e \<Rightarrow> Inl e
         | Inr concepts \<Rightarrow>
            (case extract_relationships (nlp text) concepts of
               Inl e \<Rightarrow> Inl e
             | Inr relationships \<Rightarrow>
                (case generate_hierarchy limit concepts of
                   Inl e \<Rightarrow> Inl e
                 | Inr hierarchy \<Rightarrow>
                     Inr \<lparr>ek_concepts = concepts, ek_relationships = relationships,
                          ek_hierarchy = hierarchy,
                          ek_clusters = generate_clusters detect concepts relationships\<rparr>))))"

section \<open>\<open>mapper.py\<close>: \<open>KnowledgeMapper\<close>\<close>

text \<open>
  The \<open>nx.Graph\<close> of the mapper.  A node added by \<open>add_node\<close> carries \<open>type\<close>,
  \<open>importance\<close> and \<open>frequency\<close>; a node that only \<open>add_edge\<close> created carries no
  attribute (\<open>None\<close>).  \<open>add_edge\<close> on an edge that exists overwrites its attributes and
  keeps its position.
\<close>

record node_attrs =
  na_type :: string
  na_importance :: real
  na_frequency :: int

record link_attrs =
  la_weight :: int
  la_type :: string
  la_subtypes :: "string list"

record map_graph =
  mg_nodes :: "(string \<times> node_attrs option) list"
  mg_edges :: "((string \<times> string) \<times> link_attrs) list"

type_synonym positions = "(string \<times> real \<times> real) list"

definition mg_add_node :: "map_graph \<Rightarrow> concept \<Rightarrow> map_graph" where
  "mg_add_node G c =
     G\<lparr>mg_nodes := dict_set (mg_nodes G) (cp_text c)
                      (Some \<lparr>na_type = cp_type c, na_importance = cp_importance c,
                             na_frequency = cp_frequency c\<rparr>)\<rparr>"

definition mg_touch :: "(string \<times> node_attrs option) list \<Rightarrow> string \<Rightarrow> (string \<times> node_attrs option) list" where
  "mg_touch ns n = (if n \<in> fst ` set ns then ns else ns @ [(n, None)])"

definition mg_add_edge :: "map_graph \<Rightarrow> link \<Rightarrow> map_graph" where
  "mg_add_edge G rel =
     (let u = l_source rel; v = l_target rel;
          d = \<lparr>la_weight = l_weight rel, la_type = l_type rel, la_subtypes = l_subtypes rel\<rparr>
      in \<lparr>mg_nodes = mg_touch (mg_touch (mg_nodes G) u) v,
          mg_edges = (if \<exists>(e, d') \<in> set (mg_edges G). same_edge u v e
                      then map (\<lambda>(e, d'). if same_edge u v e then (e, d) else (e, d')) (mg_edges G)
                      else mg_edges G @ [((u, v), d)])\<rparr>)"

definition build_map_graph :: "concept list \<Rightarrow> link list \<Rightarrow> map_graph" where
  "build_map_graph concepts relationships =
     foldl mg_add_edge (foldl mg_add_node \<lparr>mg_nodes = [], mg_edges = []\<rparr> concepts) relationships"

text \<open>
  The names bound at module level in \<open>mapper.py\<close>: its imports (\<open>os\<close>, \<open>json\<close>,
  \<open>logging\<close>, \<open>networkx as nx\<close>, \<open>defaultdict\<close>), \<open>logger\<close> and the class.  Reading
  any other global name that is not a builtin raises \<open>NameError\<close>.
\<close>

definition mapper_globals :: "string list" where
  "mapper_globals = [''os'', ''json'', ''logging'', ''nx'', ''defaultdict'', ''logger'', ''KnowledgeMapper'']"

text \<open>\<open>random.random()\<close>: a multiple of \<open>2^-53\<close> in \<open>[0, 1)\<close>.\<close>

definition random_random :: "rng \<Rightarrow> real \<times> rng" where
  "random_random g = (case next_random g of (r, g') \<Rightarrow> (real (r mod 2 ^ 53) / 2 ^ 53, g'))"

fun random_positions :: "rng \<Rightarrow> string list \<Rightarrow> positions" where
  "random_positions g [] = []"
| "random_positions g (n # ns) =
     (case random_random g of (x, g') \<Rightarrow>
        (case random_random g' of (y, g'') \<Rightarrow> (n, x, y) # random_positions g'' ns))"

text \<open>
  The handler of the layout's exception:
  \<open>positions = {node: [random.random(), random.random()] for node in G.nodes()}\<close>.
  The name \<open>random\<close> is looked up when the first node is reached.
\<close>

definition fallback_positions :: "rng \<Rightarrow> string list \<Rightarrow> exn + positions" where
  "fallback_positions g ns =
     (if ns = [] then Inr []
      else if ''random'' \<in> set mapper_globals then Inr (random_positions g ns)
      else Inl (NameError ''random''))"

text \<open>\<open>min\<close> and \<open>max\<close> of a non-empty sequence \<open>x # xs\<close>.\<close>

definition py_min :: "real \<Rightarrow> real list \<Rightarrow> real" where
  "py_min x xs = foldl min x xs"

definition py_max :: "real \<Rightarrow> real list \<Rightarrow> real" where
  "py_max x xs = foldl max x xs"

definition empty_map :: knowledge_map where
  "empty_map =
     \<lparr>km_nodes = [], km_links = [], km_clusters = [], km_hierarchy = EmptyHierarchy,
      km_metadata = \<lparr>total_nodes = 0, total_links = 0, total_clusters = 0\<rparr>\<rparr>"

text \<open>One entry of \<open>nodes\<close>; \<open>KeyError\<close> when the node has no position.\<close>

definition make_node ::
  "positions \<Rightarrow> real \<Rightarrow> real \<Rightarrow> real \<Rightarrow> real \<Rightarrow> real \<Rightarrow> real \<Rightarrow> string \<times> node_attrs \<Rightarrow> exn + node" where
  "make_node positions min_x x_range min_y y_range min_importance importance_range na =
     (case na of (n, a) \<Rightarrow>
        (case map_of positions n of
           None \<Rightarrow> Inl (KeyError n)
         | Some (px, py) \<Rightarrow>
            Inr \<lparr>n_id = n, n_label = n, n_type = na_type a, n_importance = na_importance a,
                 n_frequency = na_frequency a,
                 n_x = (px - min_x) / x_range,
                 n_y = (py - min_y) / y_range,
                 n_size = 5 + ((na_importance a - min_importance) / importance_range) * 15\<rparr>))"

definition make_clusters :: "node list \<Rightarrow> extracted_cluster list \<Rightarrow> cluster list" where
  "make_clusters nodes clusters =
     List.map_filter (\<lambda>c.
        (let cluster_nodes = filter (\<lambda>n. n_id n \<in> set (xc_concepts c)) nodes in
         if cluster_nodes \<noteq> [] then
           Some \<lparr>c_id = xc_id c, c_name = xc_name c, c_concepts = xc_concepts c,
                 c_center = (sum_list (map n_x cluster_nodes) / real (length cluster_nodes),
                             sum_list (map n_y cluster_nodes) / real (length cluster_nodes)),
                 c_size = int (length (xc_concepts c))\<rparr>
         else None)) clusters"

text \<open>
  The part of \<open>generate_knowledge_map\<close> between the layout and the link list: the
  observed minimum and range per axis, the observed minimum and range of the importance
  (0 and 1 when there is no node), and the node records.  \<open>p # ps\<close> are the items of the
  non-empty position dict.
\<close>

definition importance_bounds :: "real list \<Rightarrow> real \<times> real" where
  "importance_bounds importance_values =
     (case importance_values of [] \<Rightarrow> (0, 1) | v # vs \<Rightarrow> (py_min v vs, py_max v vs))"

definition place_nodes ::
  "string \<times> real \<times> real \<Rightarrow> positions \<Rightarrow> (string \<times> node_attrs) list \<Rightarrow> exn + node list" where
  "place_nodes p ps attrs =
     (let min_x = py_min (fst (snd p)) (map (\<lambda>q. fst (snd q)) ps);
          max_x = py_max (fst (snd p)) (map (\<lambda>q. fst (snd q)) ps);
          min_y = py_min (snd (snd p)) (map (\<lambda>q. snd (snd q)) ps);
          max_y = py_max (snd (snd p)) (map (\<lambda>q. snd (snd q)) ps);
          x_range = (if min_x < max_x then max_x - min_x else 1);
          y_range = (if min_y < max_y then max_y - min_y else 1);
          min_importance = fst (importance_bounds (map (\<lambda>q. na_importance (snd q)) attrs));
          max_importance = snd (importance_bounds (map (\<lambda>q. na_importance (snd q)) attrs));
          importance_range = (if min_importance < max_importance
                              then max_importance - min_importance else 1)
      in map_exn (make_node (p # ps) min_x x_range min_y y_range min_importance importance_range)
           attrs)"

text \<open>
  \<open>generate_knowledge_map\<close>.  \<open>spring_layout\<close> is \<open>nx.spring_layout\<close>: it returns the
  position dict or raises.  \<open>min\<close> of an empty position dict raises \<open>ValueError\<close>;
  reading \<open>importance\<close> of a node that only an edge created raises \<open>KeyError\<close>.
\<close>

definition generate_knowledge_map ::
  "(map_graph \<Rightarrow> exn + positions) \<Rightarrow> rng \<Rightarrow> extracted_knowledge \<Rightarrow> exn + knowledge_map" where
  "generate_knowledge_map spring_layout g ek =
     (if ek_concepts ek = [] then Inr empty_map
      else
       (let G = build_map_graph (ek_concepts ek) (ek_relationships ek) in
        case (case spring_layout G of
                Inr p \<Rightarrow> Inr p
              | Inl e \<Rightarrow> fallback_positions g (map fst (mg_nodes G))) of
          Inl e \<Rightarrow> Inl e
        | Inr [] \<Rightarrow> Inl ValueError
        | Inr (p # ps) \<Rightarrow>
           (case map_exn (\<lambda>(n, a). case a of None \<Rightarrow> Inl (KeyError ''importance'')
                                               | Some a' \<Rightarrow> Inr (n, a')) (mg_nodes G) of
              Inl e \<Rightarrow> Inl e
            | Inr attrs \<Rightarrow>
               (case place_nodes p ps attrs of
                  Inl e \<Rightarrow> Inl e
                | Inr nodes \<Rightarrow>
                   (let links =
                          map (\<lambda>(source, target, data).
                                 \<lparr>l_source = source, l_target = target,
                                  l_weight = la_weight data, l_type = la_type data,
                                  l_subtypes = la_subtypes data\<rparr>)
                              (edges_from (mg_edges G) [] (map fst (mg_nodes G)));
                        cluster_data = make_clusters nodes (ek_clusters ek)
                    in Inr \<lparr>km_nodes = nodes, km_links = links,
                            km_clusters = cluster_data,
                            km_hierarchy = ek_hierarchy ek,
                            km_metadata =
                              \<lparr>total_nodes = length nodes, total_links = length links,
                               total_clusters = length cluster_data\<rparr>\<rparr>)))))"

section \<open>\<open>journey.py\<close>: \<open>LearningJourneyGenerator\<close>\<close>

record related_concept =
  rc_id :: string
  rc_relationship_type :: string
  rc_strength :: int

record concept_content =
  cc_title :: string
  cc_type :: string
  cc_importance :: real
  cc_description :: string
  cc_pattern_insights :: "string list"
  cc_examples :: "string list"
  cc_related_concepts :: "related_concept list"
  cc_visual_elements :: "(string \<times> string) list"
  cc_learning_activities :: "(string \<times> string) list"

record journey_metadata =
  jm_pattern_focus :: string
  jm_complexity :: string
  jm_journey_type :: string

record journey =
  j_start_concept :: "string option"
  j_path :: "string list"
  j_content :: "(string \<times> concept_content) list"
  j_metadata :: journey_metadata

type_synonym nodes_dict = "(string \<times> node) list"
type_synonym adjacency = "(string \<times> (string \<times> int) list) list"
type_synonym preferences = "(string \<times> string) list"

text \<open>\<open>nodes = {node['id']: node for node in knowledge_map.get('nodes', [])}\<close>\<close>

definition nodes_of :: "knowledge_map \<Rightarrow> nodes_dict" where
  "nodes_of km = foldl (\<lambda>d n. dict_set d (n_id n) n) [] (km_nodes km)"

text \<open>
  The \<open>defaultdict(list)\<close> of weighted neighbours: every link is appended under both of
  its ends.
\<close>

definition graph_append :: "adjacency \<Rightarrow> string \<Rightarrow> string \<times> int \<Rightarrow> adjacency" where
  "graph_append g k x = dict_set g k (dict_get g k [] @ [x])"

definition build_graph :: "link list \<Rightarrow> adjacency" where
  "build_graph links =
     foldl (\<lambda>g l. graph_append (graph_append g (l_source l) (l_target l, l_weight l))
                                (l_target l) (l_source l, l_weight l)) [] links"

definition journey_types :: "string list" where
  "journey_types = [''pattern_based'', ''hierarchical'', ''associative'']"

text \<open>
  \<open>_determine_journey_type\<close>.  \<open>user_preferences\<close> is \<open>None\<close> or a dict; an empty dict is
  falsy, like \<open>None\<close>.
\<close>

definition concept_type_heuristic :: "string \<Rightarrow> nodes_dict \<Rightarrow> string" where
  "concept_type_heuristic start_concept nodes =
     (let concept_type = (case map_of nodes start_concept of None \<Rightarrow> '''' | Some c \<Rightarrow> n_type c)
      in if concept_type \<in> set [''noun_phrase'', ''key_term''] then ''pattern_based''
         else if concept_type \<in> set [''ORG'', ''PERSON'', ''GPE''] then ''hierarchical''
         else ''associative'')"

definition determine_journey_type :: "string \<Rightarrow> nodes_dict \<Rightarrow> preferences option \<Rightarrow> string" where
  "determine_journey_type start_concept nodes user_preferences =
     (case user_preferences of
        None \<Rightarrow> concept_type_heuristic start_concept nodes
      | Some p \<Rightarrow>
          if p = [] then concept_type_heuristic start_concept nodes
          else (case map_of p ''preferred_journey_type'' of
                  Some t \<Rightarrow>
                    if t \<in> set journey_types then t
                    else if map_of p ''pattern_seeking_level'' = Some ''high'' then ''pattern_based''
                    else if map_of p ''hierarchical_preference'' = Some ''high'' then ''hierarchical''
                    else if map_of p ''associative_preference'' = Some ''high'' then ''associative''
                    else concept_type_heuristic start_concept nodes
                | None \<Rightarrow>
                    if map_of p ''pattern_seeking_level'' = Some ''high'' then ''pattern_based''
                    else if map_of p ''hierarchical_preference'' = Some ''high'' then ''hierarchical''
                    else if map_of p ''associative_preference'' = Some ''high'' then ''associative''
                    else concept_type_heuristic start_concept nodes))"

text \<open>
  The concepts of similar importance that pad a short path, shared by the hierarchical and
  the default strategy.  In every strategy the set \<open>visited\<close> is extended exactly when
  \<open>path\<close> is, so membership in \<open>visited\<close> is membership in \<open>path\<close>.
\<close>

definition similar_concepts :: "string \<Rightarrow> nodes_dict \<Rightarrow> string list \<Rightarrow> string list" where
  "similar_concepts start_concept nodes path =
     (let start_importance =
            (case map_of nodes start_concept of None \<Rightarrow> 1 / 2 | Some n \<Rightarrow> n_importance n)
      in map fst (filter (\<lambda>(node_id, n). node_id \<notin> set path
                              \<and> \<bar>n_importance n - start_importance\<bar> < 2 / 10) nodes))"

definition pad_with_similar ::
  "string \<Rightarrow> nodes_dict \<Rightarrow> string list \<Rightarrow> rng \<Rightarrow> string list \<times> rng" where
  "pad_with_similar start_concept nodes path g =
     (if length path < 5 then
        (let similar = similar_concepts start_concept nodes path in
         case random_sample g similar (min 3 (length similar)) of
           (chosen, g') \<Rightarrow>
             (foldl (\<lambda>p concept. if length p < 5 then p @ [concept] else p) path chosen, g'))
      else (path, g))"

text \<open>\<open>for c in cs: if c not in visited: path.append(c); visited.add(c)\<close>\<close>

definition append_unvisited :: "string list \<Rightarrow> string list \<Rightarrow> string list" where
  "append_unvisited path cs = foldl (\<lambda>p c. if c \<notin> set p then p @ [c] else p) path cs"

text \<open>\<open>_generate_default_path\<close>\<close>

definition generate_default_path ::
  "string \<Rightarrow> nodes_dict \<Rightarrow> adjacency \<Rightarrow> rng \<Rightarrow> string list \<times> rng" where
  "generate_default_path start_concept nodes graph g =
     (let neighbors = sort_desc snd (dict_get graph start_concept []);
          path = append_unvisited [start_concept] (map fst (take 3 neighbors))
      in pad_with_similar start_concept nodes path g)"

text \<open>\<open>_generate_pattern_based_path\<close>\<close>

definition connection_strength :: "adjacency \<Rightarrow> string \<Rightarrow> string \<Rightarrow> int" where
  "connection_strength graph start_concept concept =
     (case find (\<lambda>(neighbor, weight). neighbor = concept) (dict_get graph start_concept []) of
        None \<Rightarrow> 0 | Some (neighbor, weight) \<Rightarrow> weight)"

definition connections_to_path :: "adjacency \<Rightarrow> string list \<Rightarrow> string \<Rightarrow> int" where
  "connections_to_path graph path node_id =
     int (length (filter (\<lambda>path_concept.
            \<exists>(neighbor, weight) \<in> set (dict_get graph path_concept []). neighbor = node_id) path))"

definition generate_pattern_based_path ::
  "string \<Rightarrow> nodes_dict \<Rightarrow> adjacency \<Rightarrow> knowledge_map \<Rightarrow> rng \<Rightarrow> string list \<times> rng" where
  "generate_pattern_based_path start_concept nodes graph km g =
     (case filter (\<lambda>c. start_concept \<in> set (c_concepts c)) (km_clusters km) of
        [] \<Rightarrow> generate_default_path start_concept nodes graph g
      | c # cs \<Rightarrow>
         (let primary_cluster = py_max_by c_size c cs;
              cluster_concepts = c_concepts primary_cluster;
              connected_concepts =
                sort_desc snd
                  (map (\<lambda>concept. (concept, connection_strength graph start_concept concept))
                     (filter (\<lambda>concept. concept \<noteq> start_concept \<and> concept \<in> fst ` set nodes)
                        cluster_concepts));
              path1 = append_unvisited [start_concept] (map fst (take 3 connected_concepts));
              pattern_candidates =
                sort_desc snd
                  (filter (\<lambda>(node_id, n). 2 \<le> n)
                     (map (\<lambda>node_id. (node_id, connections_to_path graph path1 node_id))
                        (filter (\<lambda>node_id. node_id \<notin> set path1) (map fst nodes))));
              path2 = append_unvisited path1 (map fst (take 2 pattern_candidates));
              path3 = (if length path2 < 5
                       then foldl (\<lambda>p concept. if concept \<notin> set p \<and> length p < 5
                                                then p @ [concept] else p) path2 cluster_concepts
                       else path2)
          in (path3, g)))"

text \<open>
  \<open>_get_children_from_tree\<close> and \<open>_is_descendant\<close>.  The latter recurses through the tree
  dict; \<open>limit\<close> is the number of nested calls the interpreter still allows.
\<close>

definition get_children_from_tree :: "string \<Rightarrow> (string \<times> subtree list) list \<Rightarrow> string list" where
  "get_children_from_tree concept tree = map st_concept (dict_get tree concept [])"

fun first_true :: "('a \<Rightarrow> exn + bool) \<Rightarrow> 'a list \<Rightarrow> exn + bool" where
  "first_true f [] = Inr False"
| "first_true f (x # xs) =
     (case f x of Inl e \<Rightarrow> Inl e | Inr b \<Rightarrow> if b then Inr True else first_true f xs)"

fun is_descendant :: "nat \<Rightarrow> string \<Rightarrow> string \<Rightarrow> (string \<times> subtree list) list \<Rightarrow> exn + bool" where
  "is_descendant 0 concept root_node tree = Inl RecursionError"
| "is_descendant (Suc limit) concept root_node tree =
     (if concept = root_node then Inr True
      else first_true (\<lambda>child_data.
             if concept = st_concept child_data then Inr True
             else is_descendant limit concept (st_concept child_data) tree)
           (dict_get tree root_node []))"

text \<open>\<open>_generate_hierarchical_path\<close>.  \<close>

fun find_parent ::
  "nat \<Rightarrow> string \<Rightarrow> (string \<times> subtree list) list \<Rightarrow> string list \<Rightarrow> exn + string option" where
  "find_parent limit start_concept tree [] = Inr None"
| "find_parent limit start_concept tree (root_node # roots) =
     (case is_descendant limit start_concept root_node tree of
        Inl e \<Rightarrow> Inl e
      | Inr b \<Rightarrow> if b then Inr (Some root_node) else find_parent limit start_concept tree roots)"

definition generate_hierarchical_path ::
  "nat \<Rightarrow> string \<Rightarrow> nodes_dict \<Rightarrow> knowledge_map \<Rightarrow> rng \<Rightarrow> exn + string list \<times> rng" where
  "generate_hierarchical_path limit start_concept nodes km g =
     (let roots = (case km_hierarchy km of EmptyHierarchy \<Rightarrow> [] | Hierarchy rs t \<Rightarrow> rs);
          tree = (case km_hierarchy km of EmptyHierarchy \<Rightarrow> [] | Hierarchy rs t \<Rightarrow> t)
      in if start_concept \<in> set roots then
           Inr (pad_with_similar start_concept nodes
                  (append_unvisited [start_concept]
                     (take 4 (get_children_from_tree start_concept tree))) g)
         else
           (case find_parent limit start_concept tree roots of
              Inl e \<Rightarrow> Inl e
            | Inr parent \<Rightarrow>
               (let path0 = (if truthy parent \<and> the parent \<noteq> start_concept
                             then [the parent, start_concept] else [start_concept]);
                    siblings = (if truthy parent then get_children_from_tree (the parent) tree
                                else []);
                    path1 = foldl (\<lambda>p sibling.
                                     if sibling \<noteq> start_concept \<and> sibling \<notin> set p \<and> length p < 4
                                     then p @ [sibling] else p) path0 siblings;
                    path2 = foldl (\<lambda>p child.
                                     if child \<notin> set p \<and> length p < 6 then p @ [child] else p)
                                  path1 (get_children_from_tree start_concept tree)
                in Inr (pad_with_similar start_concept nodes path2 g))))"

text \<open>
  \<open>_generate_associative_path\<close>: at most five steps.  The in-place sort of a neighbour list
  is not observable later, since no node is \<open>current\<close> twice.
\<close>

fun associative_steps ::
  "nat \<Rightarrow> nodes_dict \<Rightarrow> adjacency \<Rightarrow> string \<Rightarrow> string list \<Rightarrow> rng \<Rightarrow> string list \<times> rng" where
  "associative_steps 0 nodes graph current path g = (path, g)"
| "associative_steps (Suc k) nodes graph current path g =
     (let neighbors = dict_get graph current [] in
      if neighbors = [] then (path, g)
      else
        (let sorted_neighbors = sort_desc snd neighbors;
             next_concept = find (\<lambda>neighbor. neighbor \<notin> set path) (map fst sorted_neighbors);
             unvisited = filter (\<lambda>n. n \<notin> set path) (map fst nodes)
         in if truthy next_concept then
              associative_steps k nodes graph (the next_concept) (path @ [the next_concept]) g
            else if unvisited \<noteq> [] then
              (case random_choice g unvisited of
                 (chosen, g') \<Rightarrow>
                   if chosen \<noteq> [] then
                     associative_steps k nodes graph chosen (path @ [chosen]) g'
                   else (path, g'))
            else (path, g)))"

definition generate_associative_path ::
  "string \<Rightarrow> nodes_dict \<Rightarrow> adjacency \<Rightarrow> rng \<Rightarrow> string list \<times> rng" where
  "generate_associative_path start_concept nodes graph g =
     associative_steps 5 nodes graph start_concept [start_concept] g"

text \<open>\<open>_generate_concept_content\<close>\<close>

definition related_of :: "string \<Rightarrow> link list \<Rightarrow> related_concept list" where
  "related_of concept_id links =
     List.map_filter (\<lambda>l.
        if l_source l = concept_id \<and> l_target l \<noteq> concept_id then
          Some \<lparr>rc_id = l_target l, rc_relationship_type = l_type l, rc_strength = l_weight l\<rparr>
        else if l_target l = concept_id \<and> l_source l \<noteq> concept_id then
          Some \<lparr>rc_id = l_source l, rc_relationship_type = l_type l, rc_strength = l_weight l\<rparr>
        else None) links"

definition generate_concept_content :: "string \<Rightarrow> nodes_dict \<Rightarrow> knowledge_map \<Rightarrow> concept_content" where
  "generate_concept_content concept_id nodes km =
     (let label = (case map_of nodes concept_id of None \<Rightarrow> concept_id | Some n \<Rightarrow> n_label n);
          related = sort_desc rc_strength (related_of concept_id (km_links km));
          concept_cluster =
            (case find (\<lambda>c. concept_id \<in> set (c_concepts c)) (km_clusters km) of
               None \<Rightarrow> ''None'' | Some c \<Rightarrow> c_name c)
      in \<lparr>cc_title = label,
          cc_type = (case map_of nodes concept_id of None \<Rightarrow> ''concept'' | Some n \<Rightarrow> n_type n),
          cc_importance = (case map_of nodes concept_id of None \<Rightarrow> 1 / 2 | Some n \<Rightarrow> n_importance n),
          cc_description =
            ''This is a detailed explanation of the concept '' @ [CHR 0x27] @ label @ [CHR 0x27]
            @ ''. In a full implementation, this would contain comprehensive information about the concept.'',
          cc_pattern_insights =
            [''This concept forms part of a larger pattern in the knowledge domain.'',
             ''It belongs to the cluster '' @ [CHR 0x27] @ concept_cluster @ [CHR 0x27]
               @ '' which represents a key area of knowledge.'',
             ''Understanding this concept helps reveal connections between seemingly disparate ideas.''],
          cc_examples =
            [''Example 1: Application in a real-world context'',
             ''Example 2: Illustration of the concept in practice'',
             ''Example 3: Case study demonstrating the concept'' @ [CHR 0x27] @ ''s importance''],
          cc_related_concepts = take 5 related,
          cc_visual_elements =
            [(''diagram'', ''Conceptual diagram showing relationships to other concepts''),
             (''image'', ''Visual representation of the concept'')],
          cc_learning_activities =
            [(''pattern_recognition'', ''Identify patterns related to this concept in different contexts''),
             (''connection_mapping'',
              ''Map connections between this concept and previously learned concepts''),
             (''application'', ''Apply this concept to solve a novel problem'')]\<rparr>)"

text \<open>
  \<open>_determine_pattern_focus\<close>: \<open>cluster_counts\<close> gets a key for a cluster id as soon as one
  path concept lies in a cluster of that id, and counts the hits per id.
\<close>

definition cluster_counts :: "string list \<Rightarrow> cluster list \<Rightarrow> (int \<times> nat) list" where
  "cluster_counts path clusters =
     foldl (\<lambda>d c. foldl (\<lambda>d' concept.
                      if concept \<in> set (c_concepts c)
                      then dict_set d' (c_id c) (dict_get d' (c_id c) 0 + 1) else d') d path)
           [] clusters"

definition determine_pattern_focus :: "string list \<Rightarrow> knowledge_map \<Rightarrow> string" where
  "determine_pattern_focus path km =
     (let counts = cluster_counts path (km_clusters km) in
      if counts \<noteq> [] \<and> real (length path) * (7 / 10) \<le> real (Max (set (map snd counts)))
      then ''high''
      else if length counts \<le> 3 \<and> 0 < length counts then ''medium''
      else ''low'')"

text \<open>\<open>_determine_complexity\<close>\<close>

definition determine_complexity :: "string list \<Rightarrow> nodes_dict \<Rightarrow> string" where
  "determine_complexity path nodes =
     (let importances =
            map (\<lambda>concept. case map_of nodes concept of None \<Rightarrow> 1 / 2 | Some n \<Rightarrow> n_importance n)
                path;
          avg_importance = (if importances \<noteq> [] then sum_list importances / real (length importances)
                            else 1 / 2)
      in if 7 / 10 < avg_importance then ''high''
         else if 4 / 10 < avg_importance then ''medium''
         else ''low'')"

text \<open>
  \<open>generate_journey\<close>.  \<open>knowledge_map\<close> is \<open>None\<close> for a missing (or empty, hence falsy)
  map; \<open>start_concept\<close> is \<open>None\<close> or a string, falsy when empty.
\<close>

definition default_journey :: "string option \<Rightarrow> journey" where
  "default_journey start_concept =
     \<lparr>j_start_concept = start_concept, j_path = [], j_content = [],
      j_metadata = \<lparr>jm_pattern_focus = ''medium'', jm_complexity = ''medium'',
                    jm_journey_type = ''default''\<rparr>\<rparr>"

definition generate_journey ::
  "nat \<Rightarrow> rng \<Rightarrow> knowledge_map option \<Rightarrow> string option \<Rightarrow> preferences option \<Rightarrow> exn + journey" where
  "generate_journey limit g knowledge_map start_concept user_preferences =
     (case knowledge_map of
        None \<Rightarrow> Inr (default_journey start_concept)
      | Some km \<Rightarrow>
         if \<not> truthy start_concept then Inr (default_journey start_concept)
         else
          (let start = the start_concept;
               nodes = nodes_of km;
               graph = build_graph (km_links km)
           in if start \<notin> fst ` set nodes then Inr (default_journey start_concept)
              else
               (let journey_type = determine_journey_type start nodes user_preferences;
                    path_result =
                      (if journey_type = ''pattern_based''
                         then Inr (generate_pattern_based_path start nodes graph km g)
                       else if journey_type = ''hierarchical''
                         then generate_hierarchical_path limit start nodes km g
                       else if journey_type = ''associative''
                         then Inr (generate_associative_path start nodes graph g)
                       else Inr (generate_default_path start nodes graph g))
                in case path_result of
                     Inl e \<Rightarrow> Inl e
                   | Inr (path, g') \<Rightarrow>
                       Inr \<lparr>j_start_concept = start_concept,
                            j_path = path,
                            j_content = foldl (\<lambda>d concept_id.
                                           dict_set d concept_id
                                             (generate_concept_content concept_id nodes km)) [] path,
                            j_metadata =
                              \<lparr>jm_pattern_focus = determine_pattern_focus path km,
                               jm_complexity = determine_complexity path nodes,
                               jm_journey_type = journey_type\<rparr>\<rparr>)))"

section \<open>Notions used to state the properties\<close>




text \<open>
  The links, the member lists of the clusters and the hierarchy (its roots and the children
  listed under each key of its tree) mention ids of nodes only.  \<open>neighbour_ids\<close> are
  the ids that occur as a neighbour in the adjacency dict, \<open>child_ids\<close> the concepts that
  occur as a child directly under a key of the tree.
\<close>

definition references_nodes :: "knowledge_map \<Rightarrow> bool" where
  "references_nodes km =
     (list_all (\<lambda>l. l_source l \<in> n_id ` set (km_nodes km) \<and> l_target l \<in> n_id ` set (km_nodes km))
        (km_links km)
      \<and> list_all (\<lambda>c. set (c_concepts c) \<subseteq> n_id ` set (km_nodes km)) (km_clusters km)
      \<and> (case km_hierarchy km of
            EmptyHierarchy \<Rightarrow> True
          | Hierarchy roots tree \<Rightarrow>
              set roots \<subseteq> n_id ` set (km_nodes km)
              \<and> list_all (\<lambda>(k, subs). list_all (\<lambda>s. st_concept s \<in> n_id ` set (km_nodes km)) subs)
                    tree))"

definition neighbour_ids :: "adjacency \<Rightarrow> string set" where
  "neighbour_ids graph = (\<Union>(k, nb) \<in> set graph. fst ` set nb)"

definition child_ids :: "(string \<times> subtree list) list \<Rightarrow> string set" where
  "child_ids tree = (\<Union>(k, subs) \<in> set tree. st_concept ` set subs)"

section \<open>Concrete inputs used below\<close>

definition km_one :: knowledge_map where
  "km_one =
     \<lparr>km_nodes = [\<lparr>n_id = ''a'', n_label = ''a'', n_type = ''LOC'', n_importance = 1 / 2,
                    n_frequency = 1, n_x = 0, n_y = 0, n_size = 5\<rparr>],
      km_links = [], km_clusters = [], km_hierarchy = EmptyHierarchy,
      km_metadata = \<lparr>total_nodes = 1, total_links = 0, total_clusters = 0\<rparr>\<rparr>"

definition empty_doc :: doc where
  "empty_doc = \<lparr>d_sents = [], d_noun_chunks = [], d_ents = []\<rparr>"

definition tok :: "string \<Rightarrow> string \<Rightarrow> bool \<Rightarrow> string \<Rightarrow> string \<Rightarrow> token" where
  "tok text pos stop dep head_text =
     \<lparr>t_text = text, t_pos = pos, t_is_stop = stop, t_dep = dep, t_head_text = head_text\<rparr>"

text \<open>
  The annotation of the text
  \<open>Users report errors. Users read the report. The report helps users.\<close>
\<close>

definition report_doc :: doc where
  "report_doc =
     \<lparr>d_sents =
        [\<lparr>s_text = ''Users report errors.'',
          s_tokens = [tok ''Users'' ''NOUN'' False ''nsubj'' ''report'',
                      tok ''report'' ''VERB'' False ''ROOT'' ''report'',
                      tok ''errors'' ''NOUN'' False ''dobj'' ''report'',
                      tok ''.'' ''PUNCT'' False ''punct'' ''report'']\<rparr>,
         \<lparr>s_text = ''Users read the report.'',
          s_tokens = [tok ''Users'' ''NOUN'' False ''nsubj'' ''read'',
                      tok ''read'' ''VERB'' False ''ROOT'' ''read'',
                      tok ''the'' ''DET'' True ''det'' ''report'',
                      tok ''report'' ''NOUN'' False ''dobj'' ''read'',
                      tok ''.'' ''PUNCT'' False ''punct'' ''read'']\<rparr>,
         \<lparr>s_text = ''The report helps users.'',
          s_tokens = [tok ''The'' ''DET'' True ''det'' ''report'',
                      tok ''report'' ''NOUN'' False ''nsubj'' ''helps'',
                      tok ''helps'' ''VERB'' False ''ROOT'' ''helps'',
                      tok ''users'' ''NOUN'' False ''dobj'' ''helps'',
                      tok ''.'' ''PUNCT'' False ''punct'' ''helps'']\<rparr>],
      d_noun_chunks = [''Users'', ''errors'', ''Users'', ''the report'', ''The report'', ''users''],
      d_ents = []\<rparr>"

definition report_concepts :: "concept list" where
  "report_concepts =
     [\<lparr>cp_text = ''users'', cp_type = ''noun_phrase'', cp_frequency = 3, cp_importance = 3 / 14\<rparr>,
      \<lparr>cp_text = ''the report'', cp_type = ''noun_phrase'', cp_frequency = 2, cp_importance = 2 / 14\<rparr>]"

definition one_concept :: extracted_knowledge where
  "one_concept =
     \<lparr>ek_concepts = [\<lparr>cp_text = ''users'', cp_type = ''noun_phrase'', cp_frequency = 3,
                       cp_importance = 3 / 14\<rparr>],
      ek_relationships = [], ek_hierarchy = Hierarchy [''users''] [(''users'', [])],
      ek_clusters = [\<lparr>xc_id = 0, xc_concepts = [''users''], xc_name = ''users''\<rparr>]\<rparr>"





definition two_map :: knowledge_map where
  "two_map =
     \<lparr>km_nodes =
        [\<lparr>n_id = ''users'', n_label = ''users'', n_type = ''noun_phrase'', n_importance = 3 / 14,
          n_frequency = 3, n_x = 0, n_y = 0, n_size = 20\<rparr>,
         \<lparr>n_id = ''the report'', n_label = ''the report'', n_type = ''noun_phrase'',
          n_importance = 2 / 14, n_frequency = 2, n_x = 1, n_y = 0, n_size = 5\<rparr>],
      km_links =
        [\<lparr>l_source = ''users'', l_target = ''the report'', l_weight = 2,
          l_type = ''co-occurrence'', l_subtypes = []\<rparr>],
      km_clusters =
        [\<lparr>c_id = 0, c_name = ''users'', c_concepts = [''users'', ''the report''],
          c_center = (1 / 2, 0), c_size = 2\<rparr>],
      km_hierarchy = Hierarchy [''users'', ''the report''] [(''users'', []), (''the report'', [])],
      km_metadata = \<lparr>total_nodes = 2, total_links = 1, total_clusters = 1\<rparr>\<rparr>"

text \<open>A map whose only link leads to an id that is not a node.\<close>

definition km_dangling :: knowledge_map where
  "km_dangling =
     \<lparr>km_nodes = [\<lparr>n_id = ''a'', n_label = ''a'', n_type = ''LOC'', n_importance = 1 / 2,
                    n_frequency = 1, n_x = 0, n_y = 0, n_size = 5\<rparr>],
      km_links = [\<lparr>l_source = ''a'', l_target = ''b'', l_weight = 1, l_type = ''co-occurrence'',
                    l_subtypes = []\<rparr>],
      km_clusters = [], km_hierarchy = EmptyHierarchy,
      km_metadata = \<lparr>total_nodes = 1, total_links = 1, total_clusters = 0\<rparr>\<rparr>"

section \<open>Dictionaries\<close>

lemma dict_set_keys: "fst ` set (dict_set d k v) = insert k (fst ` set d)"
  by (force simp: dict_set_def image_iff split: if_splits)

lemma dict_set_map_fst:
  "map fst (dict_set d k v) = (if k \<in> fst ` set d then map fst d else map fst d @ [k])"
  by (simp add: dict_set_def case_prod_beta comp_def cong: map_cong)

lemma dict_set_distinct: "distinct (map fst d) \<Longrightarrow> distinct (map fst (dict_set d k v))"
  by (simp add: dict_set_map_fst)

lemma nodes_fold_keys:
  "fst ` set (foldl (\<lambda>d n. dict_set d (n_id n) n) d0 ns) = fst ` set d0 \<union> n_id ` set ns"
  by (induction ns arbitrary: d0) (auto simp: dict_set_keys)

lemma nodes_fold_distinct:
  "distinct (map fst d0) \<Longrightarrow> distinct (map fst (foldl (\<lambda>d n. dict_set d (n_id n) n) d0 ns))"
  by (induction ns arbitrary: d0) (auto simp: dict_set_distinct)

lemma nodes_of_keys: "fst ` set (nodes_of km) = n_id ` set (km_nodes km)"
  by (simp add: nodes_of_def nodes_fold_keys)

lemma nodes_of_distinct: "distinct (map fst (nodes_of km))"
  by (simp add: nodes_of_def nodes_fold_distinct)

section \<open>Strategy selection\<close>

text \<open>
  C5.  An explicit \<open>preferred_journey_type\<close> out of pattern_based, hierarchical and
  associative is selected whatever the nodes and the start concept are; without such a
  preference the flags \<open>pattern_seeking_level\<close>, \<open>hierarchical_preference\<close> and
  \<open>associative_preference\<close> decide, in that order.
\<close>

theorem determine_journey_type_priority:
  "(map_of p ''preferred_journey_type'' = Some t \<and> t \<in> set journey_types
      \<longrightarrow> determine_journey_type start_concept nodes (Some p) = t)
   \<and> ((\<forall>t. map_of p ''preferred_journey_type'' = Some t \<longrightarrow> t \<notin> set journey_types)
      \<longrightarrow> (map_of p ''pattern_seeking_level'' = Some ''high''
             \<longrightarrow> determine_journey_type start_concept nodes (Some p) = ''pattern_based'')
        \<and> (map_of p ''pattern_seeking_level'' \<noteq> Some ''high''
             \<and> map_of p ''hierarchical_preference'' = Some ''high''
             \<longrightarrow> determine_journey_type start_concept nodes (Some p) = ''hierarchical'')
        \<and> (map_of p ''pattern_seeking_level'' \<noteq> Some ''high''
             \<and> map_of p ''hierarchical_preference'' \<noteq> Some ''high''
             \<and> map_of p ''associative_preference'' = Some ''high''
             \<longrightarrow> determine_journey_type start_concept nodes (Some p) = ''associative''))"
  by (auto simp: determine_journey_type_def split: option.splits)

theorem determine_journey_type_priority_witness:
  "determine_journey_type ''a'' (nodes_of km_one)
     (Some [(''pattern_seeking_level'', ''high''), (''preferred_journey_type'', ''hierarchical'')])
     = ''hierarchical''
   \<and> determine_journey_type ''a'' (nodes_of km_one)
     (Some [(''preferred_journey_type'', ''fastest''), (''hierarchical_preference'', ''high''),
            (''pattern_seeking_level'', ''high'')]) = ''pattern_based''
   \<and> determine_journey_type ''a'' (nodes_of km_one)
     (Some [(''associative_preference'', ''high''), (''hierarchical_preference'', ''high'')])
     = ''hierarchical''
   \<and> determine_journey_type ''a'' (nodes_of km_one)
     (Some [(''pattern_seeking_level'', ''low''), (''associative_preference'', ''high'')])
     = ''associative''"
  using
    determine_journey_type_priority
      [of "[(''pattern_seeking_level'', ''high''), (''preferred_journey_type'', ''hierarchical'')]"
          "''hierarchical''" "''a''" "nodes_of km_one"]
    determine_journey_type_priority
      [of "[(''preferred_journey_type'', ''fastest''), (''hierarchical_preference'', ''high''),
            (''pattern_seeking_level'', ''high'')]" "''x''" "''a''" "nodes_of km_one"]
    determine_journey_type_priority
      [of "[(''associative_preference'', ''high''), (''hierarchical_preference'', ''high'')]"
          "''x''" "''a''" "nodes_of km_one"]
    determine_journey_type_priority
      [of "[(''pattern_seeking_level'', ''low''), (''associative_preference'', ''high'')]"
          "''x''" "''a''" "nodes_of km_one"]
  by (simp add: journey_types_def)

text \<open>
  C4, as the claim states it, fails: a start concept of type \<open>LOC\<close>, which is on the
  allow-list of entity labels of the extraction, is not sent to the hierarchical strategy
  when no preference is given.
\<close>

theorem type_heuristic_counterexample:
  "map_option n_type (map_of (nodes_of km_one) ''a'') = Some ''LOC''
   \<and> ''LOC'' \<in> set entity_labels
   \<and> determine_journey_type ''a'' (nodes_of km_one) None \<noteq> ''hierarchical''"
  by (simp add: determine_journey_type_def concept_type_heuristic_def nodes_of_def km_one_def
      dict_set_def entity_labels_def)

text \<open>
  C4, amended.  When no user preference decides, the type of the start concept selects the
  strategy: \<open>noun_phrase\<close> and \<open>key_term\<close> give pattern_based; the entity labels
  \<open>ORG\<close>, \<open>PERSON\<close> and \<open>GPE\<close> give hierarchical; every other type, the remaining
  allow-listed labels \<open>LOC\<close>, \<open>PRODUCT\<close>, \<open>EVENT\<close>, \<open>WORK_OF_ART\<close> and \<open>LAW\<close>
  among them, gives associative.
\<close>

theorem type_heuristic_amended:
  "map_of nodes start_concept = Some c \<Longrightarrow>
   user_preferences = None \<or> user_preferences = Some []
     \<or> (\<exists>p. user_preferences = Some p
             \<and> (\<forall>t. map_of p ''preferred_journey_type'' = Some t \<longrightarrow> t \<notin> set journey_types)
             \<and> map_of p ''pattern_seeking_level'' \<noteq> Some ''high''
             \<and> map_of p ''hierarchical_preference'' \<noteq> Some ''high''
             \<and> map_of p ''associative_preference'' \<noteq> Some ''high'') \<Longrightarrow>
   determine_journey_type start_concept nodes user_preferences =
     (if n_type c \<in> {''noun_phrase'', ''key_term''} then ''pattern_based''
      else if n_type c \<in> {''ORG'', ''PERSON'', ''GPE''} then ''hierarchical''
      else ''associative'')
   \<and> (n_type c \<in> {''LOC'', ''PRODUCT'', ''EVENT'', ''WORK_OF_ART'', ''LAW''}
        \<longrightarrow> determine_journey_type start_concept nodes user_preferences = ''associative'')"
  by (auto simp: determine_journey_type_def concept_type_heuristic_def split: option.splits)

theorem type_heuristic_amended_witness:
  "determine_journey_type ''a'' (nodes_of km_one) None = ''associative''
   \<and> determine_journey_type ''a'' (nodes_of km_one) (Some [(''pattern_seeking_level'', ''low'')])
       = ''associative''"
proof -
  have n: "map_of (nodes_of km_one) ''a'' = Some (hd (km_nodes km_one))"
    by (simp add: nodes_of_def km_one_def dict_set_def)
  have t: "n_type (hd (km_nodes km_one)) = ''LOC''"
    by (simp add: km_one_def)
  show ?thesis
    using type_heuristic_amended [OF n, of None]
      type_heuristic_amended [OF n, of "Some [(''pattern_seeking_level'', ''low'')]"]
    by (simp add: t)
qed

section \<open>Degenerate inputs\<close>

text \<open>
  C8.  \<open>generate_journey\<close> with a missing knowledge map, a missing start concept or a
  start concept that is not the id of a node returns, without raising, the journey with
  the empty path, the empty content and the metadata medium / medium / default.
\<close>

theorem generate_journey_degenerate:
  "knowledge_map = None \<or> \<not> truthy start_concept
     \<or> (\<exists>km. knowledge_map = Some km \<and> the start_concept \<notin> n_id ` set (km_nodes km))
   \<Longrightarrow> generate_journey limit g knowledge_map start_concept user_preferences =
         Inr \<lparr>j_start_concept = start_concept, j_path = [], j_content = [],
              j_metadata = \<lparr>jm_pattern_focus = ''medium'', jm_complexity = ''medium'',
                            jm_journey_type = ''default''\<rparr>\<rparr>"
  unfolding generate_journey_def default_journey_def Let_def nodes_of_keys
  by (cases knowledge_map) auto

theorem generate_journey_degenerate_witness:
  "generate_journey 1000 [] None (Some ''a'') None = Inr (default_journey (Some ''a''))
   \<and> generate_journey 1000 [] (Some km_one) None None = Inr (default_journey None)
   \<and> generate_journey 1000 [] (Some km_one) (Some '''') None = Inr (default_journey (Some ''''))
   \<and> generate_journey 1000 [] (Some km_one) (Some ''b'') None = Inr (default_journey (Some ''b''))"
proof -
  have 1: "truthy None = False" "truthy (Some '''') = False"
    by (simp_all add: truthy_def)
  have 2: "the (Some ''b'') \<notin> n_id ` set (km_nodes km_one)"
    by (simp add: km_one_def)
  show ?thesis
    using generate_journey_degenerate [of None "Some ''a''" 1000 "[]" None]
      generate_journey_degenerate [of "Some km_one" None 1000 "[]" None]
      generate_journey_degenerate [of "Some km_one" "Some ''''" 1000 "[]" None]
      generate_journey_degenerate [of "Some km_one" "Some ''b''" 1000 "[]" None]
    unfolding default_journey_def using 1 2 by simp
qed

text \<open>
  C10.  \<open>extract_knowledge\<close> on a content that is missing or empty returns, without
  raising, the record with no concepts, no relationships, no clusters and the hierarchy
  \<open>{}\<close>, which has neither \<open>roots\<close> nor \<open>tree\<close>; every result for a non-empty
  content has a hierarchy with both keys.
\<close>

theorem extract_knowledge_empty_content:
  "(pc_content pc = None \<or> pc_content pc = Some [] \<longrightarrow>
      extract_knowledge nlp detect limit pc =
        Inr \<lparr>ek_concepts = [], ek_relationships = [], ek_hierarchy = EmptyHierarchy,
             ek_clusters = []\<rparr>)
   \<and> (\<forall>t ek. pc_content pc = Some t \<and> t \<noteq> [] \<and> extract_knowledge nlp detect limit pc = Inr ek
        \<longrightarrow> (\<exists>roots tree. ek_hierarchy ek = Hierarchy roots tree))"
  by (auto simp: extract_knowledge_def generate_hierarchy_def Let_def split: sum.splits)

theorem extract_knowledge_empty_content_witness:
  "extract_knowledge (\<lambda>t. empty_doc) (\<lambda>cs rs. []) 1000 \<lparr>pc_content = None\<rparr> =
     Inr \<lparr>ek_concepts = [], ek_relationships = [], ek_hierarchy = EmptyHierarchy, ek_clusters = []\<rparr>
   \<and> extract_knowledge (\<lambda>t. empty_doc) (\<lambda>cs rs. []) 1000 \<lparr>pc_content = Some ''''\<rparr> =
     Inr \<lparr>ek_concepts = [], ek_relationships = [], ek_hierarchy = EmptyHierarchy, ek_clusters = []\<rparr>
   \<and> extract_knowledge (\<lambda>t. empty_doc) (\<lambda>cs rs. []) 1000 \<lparr>pc_content = Some ''x''\<rparr> =
     Inr \<lparr>ek_concepts = [], ek_relationships = [], ek_hierarchy = Hierarchy [] [], ek_clusters = []\<rparr>
   \<and> (\<exists>roots tree. Hierarchy [] [] = Hierarchy roots tree)"
proof -
  have c: "extract_concepts empty_doc = Inr []"
    by (simp add: extract_concepts_def empty_doc_def doc_tokens_def counter_def most_common_def
        sort_desc_def)
  have r: "extract_relationships empty_doc [] = Inr []"
    by (simp add: extract_relationships_def empty_doc_def doc_tokens_def edges_view_def
        sort_desc_def)
  have h: "generate_hierarchy 1000 [] = Inr (Hierarchy [] [])"
    by (simp add: generate_hierarchy_def containment_graph_def sort_desc_def)
  have x: "extract_knowledge (\<lambda>t. empty_doc) (\<lambda>cs rs. []) 1000 \<lparr>pc_content = Some ''x''\<rparr> =
     Inr \<lparr>ek_concepts = [], ek_relationships = [], ek_hierarchy = Hierarchy [] [], ek_clusters = []\<rparr>"
    by (simp add: extract_knowledge_def c r h generate_clusters_def sort_desc_def)
  show ?thesis
    using extract_knowledge_empty_content
        [of "\<lparr>pc_content = None\<rparr>" "\<lambda>t. empty_doc" "\<lambda>cs rs. []" 1000]
      extract_knowledge_empty_content
        [of "\<lparr>pc_content = Some ''''\<rparr>" "\<lambda>t. empty_doc" "\<lambda>cs rs. []" 1000]
      extract_knowledge_empty_content
        [of "\<lparr>pc_content = Some ''x''\<rparr>" "\<lambda>t. empty_doc" "\<lambda>cs rs. []" 1000]
      x
    by simp
qed

section \<open>Relationship extraction\<close>

text \<open>
  C1.  The extraction does not complete on every annotated text.  An edge created by a
  co-occurrence has no \<open>types\<close> attribute; when a subject or object token and its head
  then match the two concepts of such an edge, reading \<open>['types']\<close> raises
  \<open>KeyError\<close>.  For the text
  \<open>Users report errors. Users read the report. The report helps users.\<close>
  concept extraction yields \<open>users\<close> and \<open>the report\<close>, which co-occur in the second
  sentence; the subject \<open>Users\<close> of the first sentence and its head \<open>report\<close> match the
  same pair, and relationship extraction, hence \<open>extract_knowledge\<close>, raises.
\<close>

theorem extract_relationships_raises:
  "extract_concepts report_doc = Inr report_concepts
   \<and> extract_relationships report_doc report_concepts = Inl (KeyError ''types'')"
  by code_simp

lemma extract_knowledge_raises:
  "extract_knowledge (\<lambda>text. report_doc) detect limit
     \<lparr>pc_content = Some ''Users report errors. Users read the report. The report helps users.''\<rparr>
   = Inl (KeyError ''types'')"
proof -
  have c: "extract_concepts report_doc = Inr report_concepts"
    by code_simp
  have r: "extract_relationships report_doc report_concepts = Inl (KeyError ''types'')"
    by code_simp
  show ?thesis
    by (simp add: extract_knowledge_def c r)
qed

section \<open>Concept extraction\<close>





























section \<open>The graph of the mapper\<close>

lemma mg_touch_keys: "fst ` set (mg_touch ns n) = insert n (fst ` set ns)"
  by (auto simp: mg_touch_def)

lemma mg_add_edge_nodes:
  "fst ` set (mg_nodes (mg_add_edge G rel)) = {l_source rel, l_target rel} \<union> fst ` set (mg_nodes G)"
  by (auto simp: mg_add_edge_def Let_def mg_touch_keys)

lemma mg_add_node_nodes:
  "fst ` set (mg_nodes (mg_add_node G c)) = insert (cp_text c) (fst ` set (mg_nodes G))"
  by (simp add: mg_add_node_def dict_set_keys)

lemma fold_add_edge_nodes:
  "fst ` set (mg_nodes (foldl mg_add_edge G rels)) =
     fst ` set (mg_nodes G) \<union> l_source ` set rels \<union> l_target ` set rels"
  by (induction rels arbitrary: G) (auto simp: mg_add_edge_nodes)

lemma fold_add_node_nodes:
  "fst ` set (mg_nodes (foldl mg_add_node G cs)) = fst ` set (mg_nodes G) \<union> cp_text ` set cs"
  by (induction cs arbitrary: G) (auto simp: mg_add_node_nodes)

lemma build_map_graph_nodes:
  "fst ` set (mg_nodes (build_map_graph cs rels)) =
     cp_text ` set cs \<union> l_source ` set rels \<union> l_target ` set rels"
  by (simp add: build_map_graph_def fold_add_edge_nodes fold_add_node_nodes)

lemma build_map_graph_nonempty: "cs \<noteq> [] \<Longrightarrow> mg_nodes (build_map_graph cs rels) \<noteq> []"
proof
  assume "cs \<noteq> []" and e: "mg_nodes (build_map_graph cs rels) = []"
  then obtain c where "c \<in> set cs" by (cases cs) auto
  then have "cp_text c \<in> fst ` set (mg_nodes (build_map_graph cs rels))"
    by (simp add: build_map_graph_nodes)
  with e show False by simp
qed

section \<open>Layout failure\<close>

text \<open>
  C2.  The fallback for a failed layout does not produce random coordinates.  The handler
  evaluates \<open>random.random()\<close>, but \<open>mapper.py\<close> never imports \<open>random\<close>: for every
  non-empty concept list, whenever \<open>nx.spring_layout\<close> raises, the handler raises
  \<open>NameError\<close>, and \<open>generate_knowledge_map\<close> passes it to its caller instead of
  returning a knowledge map.
\<close>

theorem layout_failure_propagates:
  assumes "ek_concepts ek \<noteq> []"
    and "spring_layout (build_map_graph (ek_concepts ek) (ek_relationships ek)) = Inl e"
  shows "generate_knowledge_map spring_layout g ek = Inl (NameError ''random'')"
proof -
  have "fallback_positions g
          (map fst (mg_nodes (build_map_graph (ek_concepts ek) (ek_relationships ek))))
        = Inl (NameError ''random'')"
    using build_map_graph_nonempty [OF assms(1)]
    by (simp add: fallback_positions_def mapper_globals_def)
  with assms show ?thesis
    by (simp add: generate_knowledge_map_def Let_def)
qed

theorem layout_failure_propagates_witness:
  "generate_knowledge_map (\<lambda>G. Inl LayoutError) [] one_concept = Inl (NameError ''random'')"
proof -
  have "ek_concepts one_concept \<noteq> []"
    by (simp add: one_concept_def)
  then show ?thesis
    by (rule layout_failure_propagates) simp
qed

section \<open>Geometry of the knowledge map\<close>








lemma sum_list_upper: "(\<And>x. x \<in> set xs \<Longrightarrow> x \<le> (hi::real)) \<Longrightarrow> sum_list xs \<le> real (length xs) * hi"
  by (induction xs) (auto simp: algebra_simps add_mono)

lemma sum_list_lower: "(\<And>x. x \<in> set xs \<Longrightarrow> (lo::real) \<le> x) \<Longrightarrow> real (length xs) * lo \<le> sum_list xs"
  by (induction xs) (auto simp: algebra_simps add_mono)










section \<open>Hierarchy generation\<close>
















section \<open>Journey paths\<close>

lemma guarded_fold_distinct:
  assumes "\<And>p c. f p c = p \<or> (c \<notin> set p \<and> f p c = p @ [c])"
  shows "distinct path \<Longrightarrow> distinct (foldl f path cs)"
proof (induction cs arbitrary: path)
  case Nil
  then show ?case by simp
next
  case (Cons c cs)
  from assms [of path c] Cons.prems have "distinct (f path c)" by auto
  then show ?case using Cons.IH by simp
qed

lemma guarded_fold_subset:
  assumes "\<And>p c. f p c = p \<or> (c \<notin> set p \<and> f p c = p @ [c])"
  shows "set (foldl f path cs) \<subseteq> set path \<union> set cs"
proof (induction cs arbitrary: path)
  case Nil
  then show ?case by simp
next
  case (Cons c cs)
  from assms [of path c] have "set (f path c) \<subseteq> set path \<union> {c}" by auto
  with Cons.IH [of "f path c"] show ?case by auto
qed

lemma append_unvisited_distinct: "distinct path \<Longrightarrow> distinct (append_unvisited path cs)"
  unfolding append_unvisited_def by (rule guarded_fold_distinct) auto

lemma append_unvisited_subset: "set (append_unvisited path cs) \<subseteq> set path \<union> set cs"
  unfolding append_unvisited_def by (rule guarded_fold_subset) auto

lemma nth_not_in_rest:
  assumes "distinct pop" "i < length pop"
  shows "pop ! i \<notin> set (take i pop @ drop (Suc i) pop)"
proof -
  have "pop = take i pop @ pop ! i # drop (Suc i) pop"
    using assms(2) by (rule id_take_nth_drop)
  then have "distinct (take i pop @ pop ! i # drop (Suc i) pop)"
    using assms(1) by simp
  then show ?thesis by auto
qed

lemma random_sample_subset: "set (fst (random_sample g pop k)) \<subseteq> set pop"
proof (induction k arbitrary: g pop)
  case 0
  then show ?case by simp
next
  case (Suc k)
  show ?case
  proof (cases "pop = []")
    case True
    then show ?thesis by simp
  next
    case False
    obtain r g' where n: "next_random g = (r, g')" by (cases "next_random g")
    define i where "i = r mod length pop"
    have i: "i < length pop" using False by (simp add: i_def)
    obtain rest g'' where s: "random_sample g' (take i pop @ drop (Suc i) pop) k = (rest, g'')"
      by (cases "random_sample g' (take i pop @ drop (Suc i) pop) k")
    have "set rest \<subseteq> set (take i pop @ drop (Suc i) pop)"
      using Suc.IH [of g' "take i pop @ drop (Suc i) pop"] s by simp
    also have "\<dots> \<subseteq> set pop"
      using set_take_subset [of i pop] set_drop_subset [of "Suc i" pop] by auto
    finally have "set rest \<subseteq> set pop" .
    moreover have "pop ! i \<in> set pop" using i by simp
    ultimately show ?thesis
      using False n s by (simp add: Let_def i_def [symmetric])
  qed
qed

lemma random_sample_distinct: "distinct pop \<Longrightarrow> distinct (fst (random_sample g pop k))"
proof (induction k arbitrary: g pop)
  case 0
  then show ?case by simp
next
  case (Suc k)
  show ?case
  proof (cases "pop = []")
    case True
    then show ?thesis by simp
  next
    case False
    obtain r g' where n: "next_random g = (r, g')" by (cases "next_random g")
    define i where "i = r mod length pop"
    have i: "i < length pop" using False by (simp add: i_def)
    obtain rest g'' where s: "random_sample g' (take i pop @ drop (Suc i) pop) k = (rest, g'')"
      by (cases "random_sample g' (take i pop @ drop (Suc i) pop) k")
    have p: "pop = take i pop @ pop ! i # drop (Suc i) pop"
      using i by (rule id_take_nth_drop)
    have "distinct (take i pop @ pop ! i # drop (Suc i) pop)"
      using Suc.prems p by simp
    then have d: "distinct (take i pop @ drop (Suc i) pop)" by simp
    have "distinct rest"
      using Suc.IH [OF d, of g'] s by simp
    moreover have "set rest \<subseteq> set (take i pop @ drop (Suc i) pop)"
      using random_sample_subset [of g' "take i pop @ drop (Suc i) pop" k] s by simp
    then have "pop ! i \<notin> set rest"
      using nth_not_in_rest [OF Suc.prems i] by auto
    ultimately show ?thesis
      using False n s by (simp add: Let_def i_def [symmetric])
  qed
qed

lemma limited_append:
  "foldl (\<lambda>p c. if length p < k then p @ [c] else p) path cs = path @ take (k - length path) cs"
proof (induction cs arbitrary: path)
  case Nil
  then show ?case by simp
next
  case (Cons c cs)
  show ?case
  proof (cases "length path < k")
    case True
    then obtain m where m: "k - length path = Suc m" by (cases "k - length path") auto
    then have "k - length (path @ [c]) = m" by simp
    with Cons.IH [of "path @ [c]"] True m show ?thesis by simp
  next
    case False
    with Cons.IH [of path] show ?thesis by simp
  qed
qed

lemma similar_concepts_props:
  assumes "distinct (map fst nodes)"
  shows "distinct (similar_concepts s nodes path)"
    and "set (similar_concepts s nodes path) \<subseteq> fst ` set nodes - set path"
proof -
  show "distinct (similar_concepts s nodes path)"
    unfolding similar_concepts_def Let_def by (rule distinct_map_filter [OF assms])
  show "set (similar_concepts s nodes path) \<subseteq> fst ` set nodes - set path"
    unfolding similar_concepts_def Let_def by auto
qed

lemma pad_with_similar_props:
  assumes n: "distinct (map fst nodes)" and p: "distinct path"
  shows "distinct (fst (pad_with_similar s nodes path g))"
    and "set (fst (pad_with_similar s nodes path g)) \<subseteq> set path \<union> fst ` set nodes"
proof -
  define similar where "similar = similar_concepts s nodes path"
  obtain chosen g' where c: "random_sample g similar (min 3 (length similar)) = (chosen, g')"
    by (cases "random_sample g similar (min 3 (length similar))")
  have sim: "distinct similar" "set similar \<subseteq> fst ` set nodes - set path"
    unfolding similar_def by (rule similar_concepts_props [OF n])+
  have ch: "distinct chosen" "set chosen \<subseteq> set similar"
    using random_sample_distinct [OF sim(1), of g "min 3 (length similar)"]
      random_sample_subset [of g similar "min 3 (length similar)"] c by simp_all
  have r: "fst (pad_with_similar s nodes path g) =
             (if length path < 5 then path @ take (5 - length path) chosen else path)"
    unfolding pad_with_similar_def Let_def similar_def [symmetric]
    by (simp add: c limited_append)
  have t: "distinct (take (5 - length path) chosen)"
    "set (take (5 - length path) chosen) \<subseteq> fst ` set nodes - set path"
    using ch sim(2) set_take_subset [of "5 - length path" chosen] by auto
  show "distinct (fst (pad_with_similar s nodes path g))"
    unfolding r using p t by auto
  show "set (fst (pad_with_similar s nodes path g)) \<subseteq> set path \<union> fst ` set nodes"
    unfolding r using t by auto
qed


lemma dict_set_set: "set (dict_set d k v) \<subseteq> insert (k, v) (set d)"
  by (auto simp: dict_set_def split: if_splits)

lemma dict_get_cases: "dict_get d k dflt = dflt \<or> (k, dict_get d k dflt) \<in> set d"
  by (auto simp: dict_get_def dest: map_of_SomeD split: option.splits)

lemma dict_get_neighbours: "fst ` set (dict_get graph k []) \<subseteq> neighbour_ids graph"
  using dict_get_cases [of graph k "[]"] by (auto simp: neighbour_ids_def)

lemma graph_append_neighbours:
  "neighbour_ids (graph_append g k x) \<subseteq> insert (fst x) (neighbour_ids g)"
proof
  fix t
  assume "t \<in> neighbour_ids (graph_append g k x)"
  then obtain k' nb where e: "(k', nb) \<in> set (graph_append g k x)" and t: "t \<in> fst ` set nb"
    by (auto simp: neighbour_ids_def)
  from e dict_set_set [of g k "dict_get g k [] @ [x]"]
  consider "(k', nb) \<in> set g" | "nb = dict_get g k [] @ [x]"
    by (auto simp: graph_append_def)
  then show "t \<in> insert (fst x) (neighbour_ids g)"
  proof cases
    case 1
    with t show ?thesis by (auto simp: neighbour_ids_def)
  next
    case 2
    with t dict_get_neighbours [of g k] show ?thesis by auto
  qed
qed

lemma build_fold_neighbours:
  "neighbour_ids (foldl (\<lambda>g l. graph_append (graph_append g (l_source l) (l_target l, l_weight l))
                                (l_target l) (l_source l, l_weight l)) g links)
     \<subseteq> neighbour_ids g \<union> l_source ` set links \<union> l_target ` set links"
proof (induction links arbitrary: g)
  case Nil
  then show ?case by simp
next
  case (Cons l links)
  have "neighbour_ids (graph_append (graph_append g (l_source l) (l_target l, l_weight l))
                                (l_target l) (l_source l, l_weight l))
          \<subseteq> neighbour_ids g \<union> {l_source l, l_target l}"
    using graph_append_neighbours [of "graph_append g (l_source l) (l_target l, l_weight l)"
        "l_target l" "(l_source l, l_weight l)"]
      graph_append_neighbours [of g "l_source l" "(l_target l, l_weight l)"]
    by auto
  with Cons.IH [of "graph_append (graph_append g (l_source l) (l_target l, l_weight l))
                                (l_target l) (l_source l, l_weight l)"]
  show ?case by auto
qed

lemma build_graph_neighbours:
  "neighbour_ids (build_graph links) \<subseteq> l_source ` set links \<union> l_target ` set links"
  using build_fold_neighbours [of "[]" links] by (simp add: build_graph_def neighbour_ids_def)

lemma set_sort_desc: "set (sort_desc key xs) = set xs"
  by (simp add: sort_desc_def)

lemma default_path_props:
  assumes n: "distinct (map fst nodes)"
  shows "distinct (fst (generate_default_path s nodes graph g))"
    and "set (fst (generate_default_path s nodes graph g))
           \<subseteq> {s} \<union> neighbour_ids graph \<union> fst ` set nodes"
proof -
  define path where
    "path = append_unvisited [s] (map fst (take 3 (sort_desc snd (dict_get graph s []))))"
  have d: "distinct path"
    unfolding path_def by (rule append_unvisited_distinct) simp
  have "set (map fst (take 3 (sort_desc snd (dict_get graph s [])))) \<subseteq> neighbour_ids graph"
    using set_take_subset [of 3 "sort_desc snd (dict_get graph s [])"]
      dict_get_neighbours [of graph s]
    by (auto simp: set_sort_desc)
  with append_unvisited_subset [of "[s]" "map fst (take 3 (sort_desc snd (dict_get graph s [])))"]
  have p: "set path \<subseteq> {s} \<union> neighbour_ids graph"
    unfolding path_def by auto
  have r: "generate_default_path s nodes graph g = pad_with_similar s nodes path g"
    by (simp add: generate_default_path_def path_def Let_def)
  show "distinct (fst (generate_default_path s nodes graph g))"
    unfolding r by (rule pad_with_similar_props [OF n d])
  show "set (fst (generate_default_path s nodes graph g))
           \<subseteq> {s} \<union> neighbour_ids graph \<union> fst ` set nodes"
    unfolding r using pad_with_similar_props(2) [OF n d, of s g] p by auto
qed

lemma py_max_by_elem: "py_max_by key x xs \<in> set (x # xs)"
  unfolding py_max_by_def
proof (induction xs arbitrary: x)
  case Nil
  then show ?case by simp
next
  case (Cons y ys)
  from Cons.IH [of "if key x < key y then y else x"] show ?case
    by (auto split: if_splits)
qed

lemma pattern_path_props:
  assumes n: "distinct (map fst nodes)"
  shows "distinct (fst (generate_pattern_based_path s nodes graph km g))
         \<and> set (fst (generate_pattern_based_path s nodes graph km g))
           \<subseteq> {s} \<union> neighbour_ids graph \<union> fst ` set nodes
              \<union> (\<Union>c \<in> set (km_clusters km). set (c_concepts c))"
proof (cases "filter (\<lambda>c. s \<in> set (c_concepts c)) (km_clusters km)")
  case Nil
  then have "generate_pattern_based_path s nodes graph km g = generate_default_path s nodes graph g"
    by (simp add: generate_pattern_based_path_def)
  then show ?thesis
    using default_path_props [OF n, of s graph g] by auto
next
  case (Cons c cs)
  define primary where "primary = py_max_by c_size c cs"
  have "primary \<in> set (c # cs)"
    unfolding primary_def by (rule py_max_by_elem)
  also have "set (c # cs) \<subseteq> set (km_clusters km)"
    using Cons [symmetric] by auto
  finally have pc: "set (c_concepts primary) \<subseteq> (\<Union>c \<in> set (km_clusters km). set (c_concepts c))"
    by auto
  define connected where "connected =
     sort_desc snd
       (map (\<lambda>concept. (concept, connection_strength graph s concept))
          (filter (\<lambda>concept. concept \<noteq> s \<and> concept \<in> fst ` set nodes) (c_concepts primary)))"
  define path1 where "path1 = append_unvisited [s] (map fst (take 3 connected))"
  define candidates where "candidates =
     sort_desc snd
       (filter (\<lambda>(node_id, n). 2 \<le> n)
          (map (\<lambda>node_id. (node_id, connections_to_path graph path1 node_id))
             (filter (\<lambda>node_id. node_id \<notin> set path1) (map fst nodes))))"
  define path2 where "path2 = append_unvisited path1 (map fst (take 2 candidates))"
  define path3 where "path3 =
     (if length path2 < 5
      then foldl (\<lambda>p concept. if concept \<notin> set p \<and> length p < 5 then p @ [concept] else p)
             path2 (c_concepts primary)
      else path2)"
  have r: "fst (generate_pattern_based_path s nodes graph km g) = path3"
    unfolding generate_pattern_based_path_def Cons Let_def list.case fst_conv
      path3_def path2_def candidates_def path1_def connected_def primary_def ..
  have d1: "distinct path1"
    unfolding path1_def by (rule append_unvisited_distinct) simp
  have d2: "distinct path2"
    unfolding path2_def by (rule append_unvisited_distinct [OF d1])
  have "distinct (foldl (\<lambda>p concept. if concept \<notin> set p \<and> length p < 5 then p @ [concept] else p)
             path2 (c_concepts primary))"
    by (rule guarded_fold_distinct [OF _ d2]) auto
  with d2 have d3: "distinct path3"
    unfolding path3_def by simp
  have "set (map fst (take 3 connected)) \<subseteq> fst ` set nodes"
    using set_take_subset [of 3 connected]
    by (auto simp: connected_def set_sort_desc)
  with append_unvisited_subset [of "[s]" "map fst (take 3 connected)"]
  have p1: "set path1 \<subseteq> {s} \<union> fst ` set nodes"
    unfolding path1_def by (simp only: set_simps) blast
  have "set (map fst (take 2 candidates)) \<subseteq> fst ` set nodes"
    using set_take_subset [of 2 candidates]
    by (auto simp: candidates_def set_sort_desc)
  with append_unvisited_subset [of path1 "map fst (take 2 candidates)"] p1
  have p2: "set path2 \<subseteq> {s} \<union> fst ` set nodes"
    unfolding path2_def by blast
  have "set (foldl (\<lambda>p concept. if concept \<notin> set p \<and> length p < 5 then p @ [concept] else p)
             path2 (c_concepts primary)) \<subseteq> set path2 \<union> set (c_concepts primary)"
    by (rule guarded_fold_subset) auto
  with p2 pc have "set path3 \<subseteq> {s} \<union> fst ` set nodes
            \<union> (\<Union>c \<in> set (km_clusters km). set (c_concepts c))"
    unfolding path3_def by (auto split: if_splits)
  with d3 show ?thesis unfolding r by auto
qed


lemma children_in_tree: "set (get_children_from_tree c tree) \<subseteq> child_ids tree"
  using dict_get_cases [of tree c "[]"]
  by (auto simp: get_children_from_tree_def child_ids_def)

lemma find_parent_root:
  "find_parent limit s tree roots = Inr (Some p) \<Longrightarrow> p \<in> set roots"
  by (induction roots) (auto split: sum.splits if_splits)

lemma hierarchical_path_props:
  assumes n: "distinct (map fst nodes)"
    and r: "generate_hierarchical_path limit s nodes km g = Inr (path, g')"
  shows "distinct path
         \<and> set path \<subseteq> {s} \<union> fst ` set nodes
              \<union> set (case km_hierarchy km of EmptyHierarchy \<Rightarrow> [] | Hierarchy rs t \<Rightarrow> rs)
              \<union> child_ids (case km_hierarchy km of EmptyHierarchy \<Rightarrow> [] | Hierarchy rs t \<Rightarrow> t)"
proof -
  define roots where "roots = (case km_hierarchy km of EmptyHierarchy \<Rightarrow> [] | Hierarchy rs t \<Rightarrow> rs)"
  define tree where "tree = (case km_hierarchy km of EmptyHierarchy \<Rightarrow> [] | Hierarchy rs t \<Rightarrow> t)"
  show ?thesis
    unfolding roots_def [symmetric] tree_def [symmetric]
  proof (cases "s \<in> set roots")
    case True
    define path0 where "path0 = append_unvisited [s] (take 4 (get_children_from_tree s tree))"
    from r True have p: "path = fst (pad_with_similar s nodes path0 g)"
      unfolding generate_hierarchical_path_def Let_def roots_def [symmetric] tree_def [symmetric]
        path0_def
      by (auto simp: fst_def split: prod.splits)
    have d0: "distinct path0"
      unfolding path0_def by (rule append_unvisited_distinct) simp
    have "set (take 4 (get_children_from_tree s tree)) \<subseteq> child_ids tree"
      using set_take_subset [of 4 "get_children_from_tree s tree"] children_in_tree [of s tree]
      by blast
    with append_unvisited_subset [of "[s]" "take 4 (get_children_from_tree s tree)"]
    have s0: "set path0 \<subseteq> {s} \<union> child_ids tree"
      unfolding path0_def by (simp only: set_simps) blast
    from pad_with_similar_props [OF n d0, of s g] s0 show
      "distinct path \<and> set path \<subseteq> {s} \<union> fst ` set nodes \<union> set roots \<union> child_ids tree"
      unfolding p by blast
  next
    case False
    from r False obtain parent where fp: "find_parent limit s tree roots = Inr parent"
      unfolding generate_hierarchical_path_def Let_def roots_def [symmetric] tree_def [symmetric]
      by (auto split: sum.splits)
    define path0 where "path0 = (if truthy parent \<and> the parent \<noteq> s then [the parent, s] else [s])"
    define siblings where
      "siblings = (if truthy parent then get_children_from_tree (the parent) tree else [])"
    define path1 where "path1 =
      foldl (\<lambda>p sibling. if sibling \<noteq> s \<and> sibling \<notin> set p \<and> length p < 4
                         then p @ [sibling] else p) path0 siblings"
    define path2 where "path2 =
      foldl (\<lambda>p child. if child \<notin> set p \<and> length p < 6 then p @ [child] else p)
        path1 (get_children_from_tree s tree)"
    from r False fp have p: "path = fst (pad_with_similar s nodes path2 g)"
      unfolding generate_hierarchical_path_def Let_def roots_def [symmetric] tree_def [symmetric]
        path0_def siblings_def path1_def path2_def
      by (auto simp: fst_def split: prod.splits)
    have d0: "distinct path0"
      unfolding path0_def by simp
    have s0: "set path0 \<subseteq> {s} \<union> set roots"
    proof (cases "truthy parent \<and> the parent \<noteq> s")
      case True
      then obtain q where "parent = Some q"
        by (cases parent) (auto simp: truthy_def)
      with fp find_parent_root [of limit s tree roots q] True show ?thesis
        by (simp add: path0_def)
    next
      case False
      then show ?thesis by (simp add: path0_def)
    qed
    have ss: "set siblings \<subseteq> child_ids tree"
      unfolding siblings_def using children_in_tree [of "the parent" tree] by auto
    have d1: "distinct path1"
      unfolding path1_def by (rule guarded_fold_distinct [OF _ d0]) auto
    have "set path1 \<subseteq> set path0 \<union> set siblings"
      unfolding path1_def by (rule guarded_fold_subset) auto
    with s0 ss have s1: "set path1 \<subseteq> {s} \<union> set roots \<union> child_ids tree"
      by blast
    have d2: "distinct path2"
      unfolding path2_def by (rule guarded_fold_distinct [OF _ d1]) auto
    have "set path2 \<subseteq> set path1 \<union> set (get_children_from_tree s tree)"
      unfolding path2_def by (rule guarded_fold_subset) auto
    with s1 children_in_tree [of s tree]
    have s2: "set path2 \<subseteq> {s} \<union> set roots \<union> child_ids tree"
      by blast
    from pad_with_similar_props [OF n d2, of s g] s2 show
      "distinct path \<and> set path \<subseteq> {s} \<union> fst ` set nodes \<union> set roots \<union> child_ids tree"
      unfolding p by blast
  qed
qed

lemma find_SomeD: "find P xs = Some x \<Longrightarrow> P x \<and> x \<in> set xs"
  by (induction xs) (auto split: if_splits)

lemma associative_steps_props:
  "distinct path \<Longrightarrow>
   distinct (fst (associative_steps k nodes graph current path g))
   \<and> set (fst (associative_steps k nodes graph current path g))
        \<subseteq> set path \<union> neighbour_ids graph \<union> fst ` set nodes"
proof (induction k arbitrary: current path g)
  case 0
  then show ?case by auto
next
  case (Suc k)
  define neighbors where "neighbors = dict_get graph current []"
  define next_concept where
    "next_concept = find (\<lambda>neighbor. neighbor \<notin> set path) (map fst (sort_desc snd neighbors))"
  define unvisited where "unvisited = filter (\<lambda>n. n \<notin> set path) (map fst nodes)"
  have step: "associative_steps (Suc k) nodes graph current path g =
     (if neighbors = [] then (path, g)
      else if truthy next_concept then
              associative_steps k nodes graph (the next_concept) (path @ [the next_concept]) g
            else if unvisited \<noteq> [] then
              (case random_choice g unvisited of
                 (chosen, g') \<Rightarrow>
                   if chosen \<noteq> [] then
                     associative_steps k nodes graph chosen (path @ [chosen]) g'
                   else (path, g'))
            else (path, g))"
    by (simp add: Let_def neighbors_def next_concept_def unvisited_def)
  consider (a) "neighbors = []"
    | (b) "neighbors \<noteq> []" "truthy next_concept"
    | (c) "neighbors \<noteq> []" "\<not> truthy next_concept" "unvisited \<noteq> []"
    | (d) "neighbors \<noteq> []" "\<not> truthy next_concept" "unvisited = []"
    by blast
  then show ?case
  proof cases
    case a
    with Suc.prems show ?thesis unfolding step by auto
  next
    case b
    then obtain x where x: "next_concept = Some x"
      by (cases next_concept) (auto simp: truthy_def)
    from find_SomeD [OF x [unfolded next_concept_def]]
    have "x \<notin> set path" and "x \<in> fst ` set neighbors"
      by (simp_all add: set_sort_desc)
    with dict_get_neighbours [of graph current]
    have xn: "x \<notin> set path" "x \<in> neighbour_ids graph"
      unfolding neighbors_def by auto
    then have "distinct (path @ [x])" using Suc.prems by simp
    from Suc.IH [OF this, of x g] xn b x show ?thesis
      unfolding step by auto
  next
    case c
    obtain chosen g' where ch: "random_choice g unvisited = (chosen, g')"
      by (cases "random_choice g unvisited")
    then have "chosen \<in> set unvisited"
      using c(3) by (auto simp: random_choice_def split: prod.splits)
    then have cn: "chosen \<notin> set path" "chosen \<in> fst ` set nodes"
      unfolding unvisited_def by auto
    then have "distinct (path @ [chosen])" using Suc.prems by simp
    from Suc.IH [OF this, of chosen g'] cn c ch Suc.prems show ?thesis
      unfolding step by auto
  next
    case d
    with Suc.prems show ?thesis unfolding step by auto
  qed
qed

lemma associative_path_props:
  "distinct (fst (generate_associative_path s nodes graph g))
   \<and> set (fst (generate_associative_path s nodes graph g))
        \<subseteq> {s} \<union> neighbour_ids graph \<union> fst ` set nodes"
  using associative_steps_props [of "[s]" 5 nodes graph s g]
  by (simp add: generate_associative_path_def)


lemma references_neighbours:
  assumes "references_nodes km"
  shows "neighbour_ids (build_graph (km_links km)) \<subseteq> n_id ` set (km_nodes km)"
proof -
  from assms have "l_source ` set (km_links km) \<union> l_target ` set (km_links km)
                     \<subseteq> n_id ` set (km_nodes km)"
    by (auto simp: references_nodes_def list_all_iff)
  with build_graph_neighbours [of "km_links km"] show ?thesis by blast
qed

lemma references_clusters:
  assumes "references_nodes km"
  shows "(\<Union>c \<in> set (km_clusters km). set (c_concepts c)) \<subseteq> n_id ` set (km_nodes km)"
  using assms by (auto simp: references_nodes_def list_all_iff)

lemma references_hierarchy:
  assumes "references_nodes km"
  shows "set (case km_hierarchy km of EmptyHierarchy \<Rightarrow> [] | Hierarchy rs t \<Rightarrow> rs)
           \<union> child_ids (case km_hierarchy km of EmptyHierarchy \<Rightarrow> [] | Hierarchy rs t \<Rightarrow> t)
         \<subseteq> n_id ` set (km_nodes km)"
proof (cases "km_hierarchy km")
  case EmptyHierarchy
  then show ?thesis by (simp add: child_ids_def)
next
  case (Hierarchy rs t)
  with assms have "set rs \<subseteq> n_id ` set (km_nodes km)"
    and "\<And>k subs x. (k, subs) \<in> set t \<Longrightarrow> x \<in> set subs \<Longrightarrow> st_concept x \<in> n_id ` set (km_nodes km)"
    by (auto simp: references_nodes_def list_all_iff)
  with Hierarchy show ?thesis
    by (auto simp: child_ids_def)
qed

lemma journey_path_cases:
  assumes "generate_journey limit g (Some km) (Some s) prefs = Inr j"
    and "s \<noteq> []" and "s \<in> n_id ` set (km_nodes km)"
  shows "j_path j = fst (generate_pattern_based_path s (nodes_of km) (build_graph (km_links km)) km g)
       \<or> (\<exists>g'. generate_hierarchical_path limit s (nodes_of km) km g = Inr (j_path j, g'))
       \<or> j_path j = fst (generate_associative_path s (nodes_of km) (build_graph (km_links km)) g)
       \<or> j_path j = fst (generate_default_path s (nodes_of km) (build_graph (km_links km)) g)"
  using assms unfolding generate_journey_def Let_def
  by (auto simp: truthy_def nodes_of_keys split: if_splits sum.splits prod.splits)

lemma journey_returns:
  assumes "determine_journey_type s (nodes_of km) prefs \<noteq> ''hierarchical''"
  shows "\<exists>j. generate_journey limit g (Some km) (Some s) prefs = Inr j"
  using assms unfolding generate_journey_def Let_def
  by (auto split: if_splits sum.splits prod.splits)

text \<open>
  C9, as the claim states it, fails on a map with a link to an id that is no node: with the
  node \<open>a\<close> of type \<open>LOC\<close>, the link \<open>a\<close>--\<open>b\<close> and no preferences, the
  associative strategy steps from \<open>a\<close> to its neighbour \<open>b\<close>, and the path holds an id
  outside the node-id set.
\<close>

theorem journey_path_counterexample:
  "''a'' \<in> n_id ` set (km_nodes km_dangling)
   \<and> map_sum id j_path (generate_journey 1000 [] (Some km_dangling) (Some ''a'') None)
       = Inr [''a'', ''b'']
   \<and> ''b'' \<notin> n_id ` set (km_nodes km_dangling)"
  by code_simp

text \<open>
  C9, amended.  For every knowledge map and every start concept among its node ids: every
  strategy but the hierarchical one returns a journey (the hierarchical one can exhaust the
  recursion limit in \<open>_is_descendant\<close>), the path of every journey returned has no
  duplicate id, and when the links, the cluster member lists and the hierarchy of the map
  mention node ids only, every id of the path is a node id.
\<close>

theorem journey_path_invariant:
  assumes s: "start_concept \<in> n_id ` set (km_nodes km)"
  shows "(determine_journey_type start_concept (nodes_of km) prefs \<noteq> ''hierarchical''
            \<longrightarrow> (\<exists>j. generate_journey limit g (Some km) (Some start_concept) prefs = Inr j))
         \<and> (\<forall>j. generate_journey limit g (Some km) (Some start_concept) prefs = Inr j \<longrightarrow>
               distinct (j_path j)
               \<and> (references_nodes km \<longrightarrow> set (j_path j) \<subseteq> n_id ` set (km_nodes km)))"
proof (intro conjI impI allI)
  assume "determine_journey_type start_concept (nodes_of km) prefs \<noteq> ''hierarchical''"
  then show "\<exists>j. generate_journey limit g (Some km) (Some start_concept) prefs = Inr j"
    by (rule journey_returns)
next
  fix j
  assume r: "generate_journey limit g (Some km) (Some start_concept) prefs = Inr j"
  define nodes where "nodes = nodes_of km"
  define graph where "graph = build_graph (km_links km)"
  have n: "distinct (map fst nodes)"
    unfolding nodes_def by (rule nodes_of_distinct)
  have ids: "fst ` set nodes = n_id ` set (km_nodes km)"
    unfolding nodes_def by (rule nodes_of_keys)
  have pp: "distinct (fst (generate_pattern_based_path start_concept nodes graph km g))
         \<and> set (fst (generate_pattern_based_path start_concept nodes graph km g))
           \<subseteq> {start_concept} \<union> neighbour_ids graph \<union> fst ` set nodes
              \<union> (\<Union>c \<in> set (km_clusters km). set (c_concepts c))"
    by (rule pattern_path_props [OF n])
  have ap: "distinct (fst (generate_associative_path start_concept nodes graph g))
       \<and> set (fst (generate_associative_path start_concept nodes graph g))
            \<subseteq> {start_concept} \<union> neighbour_ids graph \<union> fst ` set nodes"
    by (rule associative_path_props)
  have dp: "distinct (fst (generate_default_path start_concept nodes graph g))"
    "set (fst (generate_default_path start_concept nodes graph g))
           \<subseteq> {start_concept} \<union> neighbour_ids graph \<union> fst ` set nodes"
    by (rule default_path_props [OF n])+
  have hp: "distinct (j_path j)
         \<and> set (j_path j) \<subseteq> {start_concept} \<union> fst ` set nodes
              \<union> set (case km_hierarchy km of EmptyHierarchy \<Rightarrow> [] | Hierarchy rs t \<Rightarrow> rs)
              \<union> child_ids (case km_hierarchy km of EmptyHierarchy \<Rightarrow> [] | Hierarchy rs t \<Rightarrow> t)"
    if "generate_hierarchical_path limit start_concept nodes km g = Inr (j_path j, g')" for g'
    by (rule hierarchical_path_props [OF n that])
  have cases: "start_concept = [] \<and> j_path j = []
       \<or> j_path j = fst (generate_pattern_based_path start_concept nodes graph km g)
       \<or> (\<exists>g'. generate_hierarchical_path limit start_concept nodes km g = Inr (j_path j, g'))
       \<or> j_path j = fst (generate_associative_path start_concept nodes graph g)
       \<or> j_path j = fst (generate_default_path start_concept nodes graph g)"
  proof (cases "start_concept = []")
    case True
    with r have "j = default_journey (Some start_concept)"
      by (simp add: generate_journey_def truthy_def)
    with True show ?thesis
      by (simp add: default_journey_def)
  next
    case False
    from journey_path_cases [OF r False s] show ?thesis
      unfolding nodes_def graph_def by blast
  qed
  from cases consider (e) "j_path j = []"
    | (p) "j_path j = fst (generate_pattern_based_path start_concept nodes graph km g)"
    | (h) g' where "generate_hierarchical_path limit start_concept nodes km g = Inr (j_path j, g')"
    | (a) "j_path j = fst (generate_associative_path start_concept nodes graph g)"
    | (d) "j_path j = fst (generate_default_path start_concept nodes graph g)"
    by blast
  then show "distinct (j_path j)"
  proof cases
    case e
    then show ?thesis by simp
  next
    case p
    with pp show ?thesis by simp
  next
    case h
    from hp [OF h] show ?thesis by (rule conjunct1)
  next
    case a
    with ap show ?thesis by simp
  next
    case d
    with dp(1) show ?thesis by simp
  qed
  show "set (j_path j) \<subseteq> n_id ` set (km_nodes km)" if w: "references_nodes km"
  proof -
    have nb: "neighbour_ids graph \<subseteq> n_id ` set (km_nodes km)"
      unfolding graph_def by (rule references_neighbours [OF w])
    note cl = references_clusters [OF w]
    have hr: "set (case km_hierarchy km of EmptyHierarchy \<Rightarrow> [] | Hierarchy rs t \<Rightarrow> rs)
                \<subseteq> n_id ` set (km_nodes km)"
      and hc: "child_ids (case km_hierarchy km of EmptyHierarchy \<Rightarrow> [] | Hierarchy rs t \<Rightarrow> t)
                \<subseteq> n_id ` set (km_nodes km)"
      using references_hierarchy [OF w] by simp_all
    have st: "{start_concept} \<subseteq> n_id ` set (km_nodes km)"
      using s by simp
    have ns: "fst ` set nodes \<subseteq> n_id ` set (km_nodes km)"
      unfolding ids by simp
    from cases consider (e) "j_path j = []"
      | (p) "j_path j = fst (generate_pattern_based_path start_concept nodes graph km g)"
      | (h) g' where "generate_hierarchical_path limit start_concept nodes km g = Inr (j_path j, g')"
      | (a) "j_path j = fst (generate_associative_path start_concept nodes graph g)"
      | (d) "j_path j = fst (generate_default_path start_concept nodes graph g)"
      by blast
    then show ?thesis
    proof cases
      case e
      then show ?thesis by simp
    next
      case p
      from pp have "set (j_path j) \<subseteq> {start_concept} \<union> neighbour_ids graph \<union> fst ` set nodes
              \<union> (\<Union>c \<in> set (km_clusters km). set (c_concepts c))"
        unfolding p by (rule conjunct2)
      then show ?thesis
        by (rule subset_trans) (intro Un_least st nb ns cl)
    next
      case h
      from hp [OF h] have "set (j_path j) \<subseteq> {start_concept} \<union> fst ` set nodes
              \<union> set (case km_hierarchy km of EmptyHierarchy \<Rightarrow> [] | Hierarchy rs t \<Rightarrow> rs)
              \<union> child_ids (case km_hierarchy km of EmptyHierarchy \<Rightarrow> [] | Hierarchy rs t \<Rightarrow> t)"
        by (rule conjunct2)
      then show ?thesis
        by (rule subset_trans) (intro Un_least st ns hr hc)
    next
      case a
      from ap have "set (j_path j) \<subseteq> {start_concept} \<union> neighbour_ids graph \<union> fst ` set nodes"
        unfolding a by (rule conjunct2)
      then show ?thesis
        by (rule subset_trans) (intro Un_least st nb ns)
    next
      case d
      from dp(2) have "set (j_path j) \<subseteq> {start_concept} \<union> neighbour_ids graph \<union> fst ` set nodes"
        unfolding d .
      then show ?thesis
        by (rule subset_trans) (intro Un_least st nb ns)
    qed
  qed
qed

theorem journey_path_invariant_witness:
  "''users'' \<in> n_id ` set (km_nodes two_map)
   \<and> references_nodes two_map
   \<and> map_sum id j_path
         (generate_journey 1000 [0] (Some two_map) (Some ''users'')
            (Some [(''preferred_journey_type'', ''hierarchical'')]))
       = Inr [''users'', ''the report'']
   \<and> distinct [''users'', ''the report'']
   \<and> set [''users'', ''the report''] \<subseteq> n_id ` set (km_nodes two_map)"
proof -
  have s: "''users'' \<in> n_id ` set (km_nodes two_map)"
    by code_simp
  have w: "references_nodes two_map"
    by code_simp
  have e: "map_sum id j_path
         (generate_journey 1000 [0] (Some two_map) (Some ''users'')
            (Some [(''preferred_journey_type'', ''hierarchical'')]))
       = Inr [''users'', ''the report'']"
    by code_simp
  then obtain j where j: "generate_journey 1000 [0] (Some two_map) (Some ''users'')
            (Some [(''preferred_journey_type'', ''hierarchical'')]) = Inr j"
    and p: "j_path j = [''users'', ''the report'']"
    by (cases "generate_journey 1000 [0] (Some two_map) (Some ''users'')
            (Some [(''preferred_journey_type'', ''hierarchical'')])") auto
  from journey_path_invariant [OF s, of "Some [(''preferred_journey_type'', ''hierarchical'')]" 1000 "[0]"]
  have "distinct (j_path j) \<and> (references_nodes two_map
          \<longrightarrow> set (j_path j) \<subseteq> n_id ` set (km_nodes two_map))"
    using j by blast
  with w have "distinct [''users'', ''the report'']
      \<and> set [''users'', ''the report''] \<subseteq> n_id ` set (km_nodes two_map)"
    unfolding p by blast
  with s w e show ?thesis by blast
qed

end
